theory Spec2Isabelle
  imports Complex_Main
begin

section \<open>Floating-point numbers\<close>

text \<open>
  Python and numpy compute with IEEE binary64 floats: every arithmetic result is the
  exact result rounded to the nearest number with a significand of 53 bits, a tie
  going to the even significand. \<open>round_half_even\<close> is that rounding to an integer
  (numpy's \<^verbatim>\<open>rint\<close>), \<open>round_to_float\<close> the rounding of a real to a float, by the
  unit in the last place of its binade. Subnormal numbers are not modelled: no
  quotient or difference the module computes on finite data comes near them.
\<close>

definition round_half_even :: "real \<Rightarrow> int" where
  "round_half_even x =
     (let f = \<lfloor>x\<rfloor>; d = x - real_of_int f
      in if d < 1 / 2 then f else if 1 / 2 < d then f + 1 else if even f then f else f + 1)"

definition float_unit :: "real \<Rightarrow> real" where
  "float_unit x = 2 powr (real_of_int \<lfloor>log 2 \<bar>x\<bar>\<rfloor> - 52)"

definition round_to_float :: "real \<Rightarrow> real" where
  "round_to_float x =
     (if x = 0 then 0
      else real_of_int (round_half_even (x / float_unit x)) * float_unit x)"

text \<open>Python's \<^verbatim>\<open>int\<close> of a float truncates towards zero.\<close>

definition py_int :: "real \<Rightarrow> int" where
  "py_int x = (if 0 \<le> x then \<lfloor>x\<rfloor> else \<lceil>x\<rceil>)"

section \<open>Values, errors and data frames\<close>

text \<open>
  The plotting module of visualEyes (\<^verbatim>\<open>src/visualeyes/core/plotting.py\<close>) works on
  pandas data frames of gaze samples. A numeric cell of a frame is a float: either
  NaN (pandas' marker for a missing value) or a finite number, modelled as a real.
  Comparisons are exact on floats, so order tests on reals are faithful; infinite
  cells are outside the model.
\<close>

datatype cell = NaN | Num real

text \<open>Every comparison with NaN is false, as in IEEE arithmetic and numpy.\<close>

fun cell_lt :: "cell \<Rightarrow> real \<Rightarrow> bool" where
  "cell_lt NaN b = False"
| "cell_lt (Num a) b = (a < b)"

fun cell_le :: "cell \<Rightarrow> real \<Rightarrow> bool" where
  "cell_le NaN b = False"
| "cell_le (Num a) b = (a \<le> b)"

fun cell_ge :: "cell \<Rightarrow> real \<Rightarrow> bool" where
  "cell_ge NaN b = False"
| "cell_ge (Num a) b = (a \<ge> b)"

fun cell_gt :: "cell \<Rightarrow> cell \<Rightarrow> bool" where
  "cell_gt (Num a) (Num b) = (a > b)"
| "cell_gt _ _ = False"

text \<open>The difference of two floats is the exact difference, rounded.\<close>

fun cell_sub :: "cell \<Rightarrow> cell \<Rightarrow> cell" where
  "cell_sub (Num a) (Num b) = Num (round_to_float (a - b))"
| "cell_sub _ _ = NaN"

fun isna :: "cell \<Rightarrow> bool" where
  "isna NaN = True"
| "isna (Num a) = False"

text \<open>
  The exceptions the module can raise. \<open>ValueError\<close> carries its message, which tells
  the module's own errors from those of the libraries it calls. \<open>OSError\<close> stands
  for its subclasses as well (FileNotFoundError, PermissionError).
\<close>

datatype error =
    ValueError string
  | ValidationError
  | KeyError
  | AttributeError
  | TypeError
  | OverflowError
  | MemoryError
  | OSError

text \<open>
  Python's true division of two integers, \<^verbatim>\<open>a / b\<close> with \<open>b\<close> not zero: the exact
  quotient rounded to a float, OverflowError when it is too large for one.
\<close>

definition true_div :: "int \<Rightarrow> int \<Rightarrow> error + real" where
  "true_div a b =
     (if 2 ^ 1024 \<le> \<bar>round_to_float (real_of_int a / real_of_int b)\<bar> then Inl OverflowError
      else Inr (round_to_float (real_of_int a / real_of_int b)))"

definition bind_err :: "error + 'a \<Rightarrow> ('a \<Rightarrow> error + 'b) \<Rightarrow> error + 'b" where
  "bind_err m f = (case m of Inl e \<Rightarrow> Inl e | Inr x \<Rightarrow> f x)"

text \<open>
  A data frame has named columns and rows; every row carries its index label
  (an integer here) and one cell per column. A freshly built frame has the labels
  \<open>0, 1, ..., n - 1\<close> (pandas' RangeIndex); a frame cut out of another one keeps
  the labels of the rows it kept.
\<close>

record dataframe =
  columns :: "string list"
  rows :: "(int \<times> cell list) list"

definition label :: "int \<times> cell list \<Rightarrow> int" where
  "label r = fst r"

text \<open>The cell of a row in a named column; a cell the row does not hold is missing.\<close>

definition cell_at :: "string list \<Rightarrow> string \<Rightarrow> int \<times> cell list \<Rightarrow> cell" where
  "cell_at cols c r = (case map_of (zip cols (snd r)) c of Some v \<Rightarrow> v | None \<Rightarrow> NaN)"

text \<open>\<^verbatim>\<open>data[c]\<close>: the column as a sequence, KeyError when the frame has no such column.\<close>

definition get_column :: "dataframe \<Rightarrow> string \<Rightarrow> error + cell list" where
  "get_column df c =
     (if c \<in> set (columns df) then Inr (map (cell_at (columns df) c) (rows df))
      else Inl KeyError)"

definition range_index :: "dataframe \<Rightarrow> bool" where
  "range_index df = (map label (rows df) = map int [0..<length (rows df)])"

text \<open>
  \<^verbatim>\<open>data.drop(index=labels)\<close>: pandas removes every row whose index label is
  listed, and raises KeyError when a listed label is not in the index.
\<close>

definition drop_index :: "dataframe \<Rightarrow> int list \<Rightarrow> error + dataframe" where
  "drop_index df labels =
     (if list_ex (\<lambda>l. l \<notin> set (map label (rows df))) labels then Inl KeyError
      else Inr (df\<lparr>rows := filter (\<lambda>r. label r \<notin> set labels) (rows df)\<rparr>))"

text \<open>
  \<^verbatim>\<open>data.dropna(subset=cs)\<close>: removes every row with a missing value in one of the
  columns \<open>cs\<close>, KeyError when one of them is not a column of the frame.
\<close>

definition dropna :: "dataframe \<Rightarrow> string list \<Rightarrow> error + dataframe" where
  "dropna df cs =
     (if list_ex (\<lambda>c. c \<notin> set (columns df)) cs then Inl KeyError
      else Inr (df\<lparr>rows := filter (\<lambda>r. \<not> list_ex (\<lambda>c. isna (cell_at (columns df) c r)) cs) (rows df)\<rparr>))"

section \<open>Validation helpers\<close>

text \<open>
  Modelled from the spec: \<^verbatim>\<open>screen_dimensions_validation\<close> of
  \<^verbatim>\<open>utility.py\<close>, which is not among the sources. The spec: "Given screen
  dimensions, confirms a 2-element positive-numeric tuple", failing with a
  ValidationError. Screen dimensions are the pair (height, width).
\<close>

definition screen_dimensions_validation :: "int \<times> int \<Rightarrow> error + unit" where
  "screen_dimensions_validation sd =
     (if 0 < fst sd \<and> 0 < snd sd then Inr () else Inl ValidationError)"

text \<open>
  Modelled from the spec: \<^verbatim>\<open>dataframe_validation\<close> of \<^verbatim>\<open>utility.py\<close>, which
  is not among the sources. The spec: "given a tabular dataset, confirms it contains
  the required coordinate columns (either a plain position pair or a
  duration-weighted position pair) and returns the extracted coordinate sequences",
  failing with a ValidationError. A frame that holds both pairs is read by the
  plain pair, which the spec names first.
\<close>

definition dataframe_validation :: "dataframe \<Rightarrow> error + (cell list \<times> cell list)" where
  "dataframe_validation df =
     (if ''xpos'' \<in> set (columns df) \<and> ''ypos'' \<in> set (columns df) then
        Inr (map (cell_at (columns df) ''xpos'') (rows df),
             map (cell_at (columns df) ''ypos'') (rows df))
      else if ''axp'' \<in> set (columns df) \<and> ''ayp'' \<in> set (columns df) then
        Inr (map (cell_at (columns df) ''axp'') (rows df),
             map (cell_at (columns df) ''ayp'') (rows df))
      else Inl ValidationError)"

section \<open>Cleaning of out-of-screen samples in \<^verbatim>\<open>plot_as_scatter\<close>\<close>

text \<open>
  Lines 46 to 53 of the source. \<^verbatim>\<open>np.where(mask)[0]\<close> lists the positions at which the
  condition holds; \<^verbatim>\<open>np.unique\<close> sorts the concatenation and removes duplicates; the result
  is then handed to \<^verbatim>\<open>data.drop(index=...)\<close>, which reads the numbers as index labels.
\<close>

definition np_where :: "bool list \<Rightarrow> nat list" where
  "np_where condition = filter (\<lambda>i. condition ! i) [0..<length condition]"

definition out_of_bounds :: "cell list \<Rightarrow> cell list \<Rightarrow> int \<times> int \<Rightarrow> nat list" where
  "out_of_bounds x_coord y_coord screen_dimensions =
     (let out_of_bounds_x =
            np_where (map (\<lambda>x. cell_lt x 0 \<or> cell_ge x (real_of_int (snd screen_dimensions))) x_coord);
          out_of_bounds_y =
            np_where (map (\<lambda>y. cell_lt y 0 \<or> cell_ge y (real_of_int (fst screen_dimensions))) y_coord)
      in sort (remdups (out_of_bounds_x @ out_of_bounds_y)))"

definition clean_data :: "dataframe \<Rightarrow> int \<times> int \<Rightarrow> error + dataframe" where
  "clean_data data screen_dimensions =
     bind_err (dataframe_validation data) (\<lambda>(x_coord, y_coord).
       drop_index data (map int (out_of_bounds x_coord y_coord screen_dimensions)))"

section \<open>\<^verbatim>\<open>plot_as_scatter\<close>\<close>

text \<open>
  An AOI definition is a dictionary with the keys \<^verbatim>\<open>shape\<close> and \<^verbatim>\<open>coordinates\<close>.
\<close>

record aoi =
  shape :: string
  coordinates :: "real list"

text \<open>
  The fixation durations of the rows (lines 72 to 76): \<^verbatim>\<open>series['etime'] - series['stime']\<close>
  for every row, KeyError when the frame lacks one of the two columns.
\<close>

definition row_get :: "string list \<Rightarrow> int \<times> cell list \<Rightarrow> string \<Rightarrow> error + cell" where
  "row_get cols r c = (if c \<in> set cols then Inr (cell_at cols c r) else Inl KeyError)"

fun fixation_durations :: "string list \<Rightarrow> (int \<times> cell list) list \<Rightarrow> error + cell list" where
  "fixation_durations cols [] = Inr []"
| "fixation_durations cols (r # rs) =
     bind_err (row_get cols r ''etime'') (\<lambda>etime.
     bind_err (row_get cols r ''stime'') (\<lambda>stime.
     bind_err (fixation_durations cols rs) (\<lambda>ds.
       Inr (cell_sub etime stime # ds))))"

text \<open>
  Python's \<^verbatim>\<open>max\<close> of a list: ValueError on the empty list (the message is the one
  of CPython up to 3.11); otherwise it keeps the first element and replaces it by
  every later one that compares greater.
\<close>

fun py_max :: "cell list \<Rightarrow> error + cell" where
  "py_max [] = Inl (ValueError ''max() arg is an empty sequence'')"
| "py_max (x # xs) = Inr (foldl (\<lambda>m y. if cell_gt y m then y else m) x xs)"

text \<open>
  \<^verbatim>\<open>round(x, 2)\<close> of a numpy float: \<^verbatim>\<open>rint(x * 100) / 100\<close>, the product and the
  quotient each rounded to a float; NaN stays NaN.
\<close>

fun py_round2 :: "cell \<Rightarrow> cell" where
  "py_round2 NaN = NaN"
| "py_round2 (Num a) =
     Num (round_to_float (real_of_int (round_half_even (round_to_float (a * 100))) / 100))"

text \<open>
  What the renderer is given. The marker areas are either the fixed \<^verbatim>\<open>marker_size\<close>,
  or, for duration-weighted data, \<^verbatim>\<open>3 * marker_size * duration / max_duration\<close> for
  every row: the figure records the marker size, the durations and the rounded
  maximum, the quotient itself being a floating-point division that numpy does
  without raising.
\<close>

datatype marker_sizes = FixedSize real | ScaledSizes real "cell list" cell

record scatter_figure =
  xlim :: "int \<times> int"
  ylim :: "int \<times> int"
  points :: "(cell \<times> cell) list"
  sizes :: marker_sizes
  saved_to :: "string option"

text \<open>\<^verbatim>\<open>os.path.join\<close> of a non-empty directory and a file name (POSIX).\<close>

definition path_join :: "string \<Rightarrow> string \<Rightarrow> string" where
  "path_join a b = (if last a = CHR ''/'' then a @ b else a @ ''/'' @ b)"

definition scatter_file_path :: "string option \<Rightarrow> string" where
  "scatter_file_path save_path =
     (case save_path of
        None \<Rightarrow> ''scatter_plot.png''
      | Some p \<Rightarrow> if p = [] then ''scatter_plot.png'' else path_join p ''scatter_plot.png'')"

text \<open>
  Lines 69 to 88: the points handed to \<^verbatim>\<open>ax.scatter\<close> and their sizes.
\<close>

definition scatter_points :: "dataframe \<Rightarrow> real \<Rightarrow> error + ((cell \<times> cell) list \<times> marker_sizes)" where
  "scatter_points clean marker_size =
     (if ''axp'' \<in> set (columns clean) \<and> ''ayp'' \<in> set (columns clean) then
        bind_err (fixation_durations (columns clean) (rows clean)) (\<lambda>fixation_duration.
        bind_err (py_max fixation_duration) (\<lambda>m.
        bind_err (get_column clean ''axp'') (\<lambda>xs.
        bind_err (get_column clean ''ayp'') (\<lambda>ys.
          Inr (zip xs ys, ScaledSizes marker_size fixation_duration (py_round2 m))))))
      else
        bind_err (get_column clean ''xpos'') (\<lambda>xs.
        bind_err (get_column clean ''ypos'') (\<lambda>ys.
          Inr (zip xs ys, FixedSize marker_size))))"

text \<open>
  The whole function. Its first check, that \<^verbatim>\<open>data\<close> is a data frame, holds by the
  type of the argument. A matplotlib Axes has no attribute \<^verbatim>\<open>overlay\<close>, so line 92
  raises AttributeError whenever it is reached with AOI definitions. Whether
  \<^verbatim>\<open>fig.savefig\<close> can write a file is a matter of the file system, the parameter
  \<open>can_save\<close>: where it cannot, line 100 raises an OSError.
\<close>

definition plot_as_scatter ::
  "(string \<Rightarrow> bool) \<Rightarrow> dataframe \<Rightarrow> int \<times> int \<Rightarrow> aoi list option \<Rightarrow> bool \<Rightarrow> string option
     \<Rightarrow> real \<Rightarrow> error + scatter_figure" where
  "plot_as_scatter can_save data screen_dimensions aoi_definitions save_png save_path marker_size =
     bind_err (screen_dimensions_validation screen_dimensions) (\<lambda>_.
     bind_err (clean_data data screen_dimensions) (\<lambda>clean.
     bind_err (scatter_points clean marker_size) (\<lambda>(pts, sz).
       if aoi_definitions \<noteq> None then Inl AttributeError
       else if save_png \<and> \<not> can_save (scatter_file_path save_path) then Inl OSError
       else Inr \<lparr>xlim = (0, snd screen_dimensions - 1),
                 ylim = (0, fst screen_dimensions - 1),
                 points = pts,
                 sizes = sz,
                 saved_to = (if save_png then Some (scatter_file_path save_path) else None)\<rparr>)))"

section \<open>\<^verbatim>\<open>overlay_aoi\<close>\<close>

text \<open>
  \<^verbatim>\<open>str.lower\<close> on ASCII: the letters A to Z (codes 65 to 90) get the bit of value
  32 set, every other character stays.
\<close>

definition lower_char :: "char \<Rightarrow> char" where
  "lower_char c =
     (if 65 \<le> (of_char c :: nat) \<and> (of_char c :: nat) \<le> 90 then
        (case c of Char b0 b1 b2 b3 b4 b5 b6 b7 \<Rightarrow> Char b0 b1 b2 b3 b4 True b6 b7)
      else c)"

definition lower :: "string \<Rightarrow> string" where
  "lower s = map lower_char s"

text \<open>
  A line drawn on the axes by \<^verbatim>\<open>ax.plot(xs, ys)\<close>: the rectangle's corners are Python
  integers, the circle's boundary points are floats.
\<close>

datatype line = IntLine "int list" "int list" | FloatLine "real list" "real list"

definition linspace_0_2pi_100 :: "real list" where
  "linspace_0_2pi_100 = map (\<lambda>k. real k * (2 * pi / 99)) [0..<100]"

definition circle_boundary :: "real \<Rightarrow> real \<Rightarrow> real \<Rightarrow> line" where
  "circle_boundary x_center y_center radius =
     FloatLine (map (\<lambda>theta. x_center + radius * cos theta) linspace_0_2pi_100)
               (map (\<lambda>theta. y_center + radius * sin theta) linspace_0_2pi_100)"

text \<open>
  One turn of the loop of lines 134 to 154. Unpacking a sequence of the wrong length
  raises ValueError; a shape that is neither of the two draws nothing.
\<close>

definition draw_aoi :: "aoi \<Rightarrow> error + line list" where
  "draw_aoi a =
     (if lower (shape a) = ''rectangle'' then
        (case map py_int (coordinates a) of
           [x1, x2, y1, y2] \<Rightarrow> Inr [IntLine [x1, x2, x2, x1, x1] [y1, y1, y2, y2, y1]]
         | _ \<Rightarrow> Inl (ValueError ''wrong number of values to unpack''))
      else if lower (shape a) = ''circle'' then
        (case coordinates a of
           [x_center, y_center, radius] \<Rightarrow> Inr [circle_boundary x_center y_center radius]
         | _ \<Rightarrow> Inl (ValueError ''wrong number of values to unpack''))
      else Inr [])"

fun overlay_loop :: "aoi list \<Rightarrow> line list \<Rightarrow> error + line list" where
  "overlay_loop [] ax = Inr ax"
| "overlay_loop (a # as) ax = bind_err (draw_aoi a) (\<lambda>ls. overlay_loop as (ax @ ls))"

text \<open>
  Modelled from the spec: \<^verbatim>\<open>aoi_definitions_validation\<close> of \<^verbatim>\<open>utility.py\<close>, which
  is not among the sources. The spec: "Given AOI definitions, confirms each entry
  has a recognized shape and the correct coordinate arity, and that coordinates
  fall within screen bounds. Fails with a ValidationError". What exactly it accepts
  is the parameter \<open>aoi_valid\<close>, so that every result below holds for whatever test
  the function applies.
\<close>

definition aoi_definitions_validation ::
  "(aoi list \<Rightarrow> int \<times> int \<Rightarrow> bool) \<Rightarrow> aoi list \<Rightarrow> int \<times> int \<Rightarrow> error + unit" where
  "aoi_definitions_validation aoi_valid aoi_definitions screen_dimensions =
     (if aoi_valid aoi_definitions screen_dimensions then Inr () else Inl ValidationError)"

text \<open>The axes are the list of the lines drawn on them so far.\<close>

definition overlay_aoi ::
  "(aoi list \<Rightarrow> int \<times> int \<Rightarrow> bool) \<Rightarrow> aoi list \<Rightarrow> int \<times> int \<Rightarrow> line list
     \<Rightarrow> error + line list" where
  "overlay_aoi aoi_valid aoi_definitions screen_dimensions ax =
     bind_err (aoi_definitions_validation aoi_valid aoi_definitions screen_dimensions) (\<lambda>_.
     bind_err (screen_dimensions_validation screen_dimensions) (\<lambda>_.
       overlay_loop aoi_definitions ax))"

section \<open>\<^verbatim>\<open>plot_heatmap\<close>\<close>

text \<open>
  Lines 170 to 177: rows with a missing \<^verbatim>\<open>xpos\<close> or \<^verbatim>\<open>ypos\<close> are removed, then the
  rows outside the screen. Selecting rows by a boolean mask is by position.
\<close>

definition on_screen :: "string list \<Rightarrow> int \<times> int \<Rightarrow> int \<times> cell list \<Rightarrow> bool" where
  "on_screen cols screen_dimensions r =
     (cell_ge (cell_at cols ''xpos'' r) 0 \<and>
      cell_le (cell_at cols ''xpos'' r) (real_of_int (snd screen_dimensions)) \<and>
      cell_ge (cell_at cols ''ypos'' r) 0 \<and>
      cell_le (cell_at cols ''ypos'' r) (real_of_int (fst screen_dimensions)))"

definition heatmap_data :: "dataframe \<Rightarrow> int \<times> int \<Rightarrow> error + dataframe" where
  "heatmap_data data screen_dimensions =
     bind_err (dropna data [''xpos'', ''ypos'']) (\<lambda>d.
       Inr (d\<lparr>rows := filter (on_screen (columns d) screen_dimensions) (rows d)\<rparr>))"

text \<open>
  The \<^verbatim>\<open>bins\<close> argument: None; an integer; a tuple, a list or a one-dimensional
  array of integers; a numpy array of dimension 0, which is an \<^verbatim>\<open>ndarray\<close> without a
  length; or a Python value of any other type (a float, a string, a dictionary).
  Sequences whose elements are not integers are outside the model. Lines 180 to 188
  turn the argument into the two bin counts: the default ones are
  \<^verbatim>\<open>int(screen_width / 20)\<close> and \<^verbatim>\<open>int(screen_height / 20)\<close>, float quotients truncated;
  \<^verbatim>\<open>len(bins)\<close> raises TypeError on an array of dimension 0.
\<close>

datatype bins_arg = BinsNone | BinsInt int | BinsSeq "int list" | BinsArray0d | BinsOther

definition determine_bins :: "int \<times> int \<Rightarrow> bins_arg \<Rightarrow> error + (int \<times> int)" where
  "determine_bins screen_dimensions bins =
     (case bins of
        BinsNone \<Rightarrow>
          bind_err (true_div (snd screen_dimensions) 20) (\<lambda>qx.
          bind_err (true_div (fst screen_dimensions) 20) (\<lambda>qy.
            Inr (py_int qx, py_int qy)))
      | BinsInt n \<Rightarrow> Inr (n, n)
      | BinsSeq bs \<Rightarrow>
          (if length bs = 2 then Inr (bs ! 0, bs ! 1)
           else Inl (ValueError ''`bins` must be an integer or a tuple of two integers.''))
      | BinsArray0d \<Rightarrow> Inl TypeError
      | BinsOther \<Rightarrow> Inl (ValueError ''`bins` must be an integer or a tuple of two integers.''))"

text \<open>
  \<^verbatim>\<open>numpy.histogram2d\<close> with integer bin counts and no range. For each dimension in
  turn numpy rejects a count below one, then a sample from which no finite range
  can be read, and then builds the bin edges; at last it builds the table of the
  counts. Whether numpy can build an array is a matter of the machine, the
  parameter \<open>allocate\<close>, asked with the bin counts the array is made for: it refuses
  a size beyond its index type with a ValueError, and one beyond the memory with a
  MemoryError. The counting itself is numpy's; the model keeps the samples and the
  bin counts the histogram is made of.
\<close>

datatype allocation = Allocated | SizeExceeded | OutOfMemory

fun allocated :: "allocation \<Rightarrow> error + unit" where
  "allocated Allocated = Inr ()"
| "allocated SizeExceeded = Inl (ValueError ''Maximum allowed size exceeded'')"
| "allocated OutOfMemory = Inl MemoryError"

record histogram =
  sample_x :: "cell list"
  sample_y :: "cell list"
  bin_counts :: "int \<times> int"

definition np_histogram2d ::
  "(int list \<Rightarrow> allocation) \<Rightarrow> cell list \<Rightarrow> cell list \<Rightarrow> int \<Rightarrow> int \<Rightarrow> error + histogram" where
  "np_histogram2d allocate xs ys bins_x bins_y =
     (if bins_x < 1 then Inl (ValueError ''`bins[0]` must be positive, when an integer'')
      else if list_ex isna xs then Inl (ValueError ''autodetected range is not finite'')
      else bind_err (allocated (allocate [bins_x])) (\<lambda>_.
        if bins_y < 1 then Inl (ValueError ''`bins[1]` must be positive, when an integer'')
        else if list_ex isna ys then Inl (ValueError ''autodetected range is not finite'')
        else bind_err (allocated (allocate [bins_y])) (\<lambda>_.
          bind_err (allocated (allocate [bins_x, bins_y])) (\<lambda>_.
            Inr \<lparr>sample_x = xs, sample_y = ys, bin_counts = (bins_x, bins_y)\<rparr>))))"

record heatmap_figure =
  heatmap :: histogram
  extent :: "int list"
  overlays :: "line list"

definition plot_heatmap ::
  "(aoi list \<Rightarrow> int \<times> int \<Rightarrow> bool) \<Rightarrow> (int list \<Rightarrow> allocation) \<Rightarrow> dataframe \<Rightarrow> int \<times> int
     \<Rightarrow> aoi list option \<Rightarrow> bins_arg \<Rightarrow> error + heatmap_figure" where
  "plot_heatmap aoi_valid allocate data screen_dimensions aoi_definitions bins =
     bind_err (heatmap_data data screen_dimensions) (\<lambda>d.
     bind_err (determine_bins screen_dimensions bins) (\<lambda>(bins_x, bins_y).
     bind_err (get_column d ''xpos'') (\<lambda>xs.
     bind_err (get_column d ''ypos'') (\<lambda>ys.
     bind_err (np_histogram2d allocate xs ys bins_x bins_y) (\<lambda>h.
     bind_err (case aoi_definitions of
                 None \<Rightarrow> Inr []
               | Some a \<Rightarrow> overlay_aoi aoi_valid a screen_dimensions []) (\<lambda>ax.
       Inr \<lparr>heatmap = h,
            extent = [0, snd screen_dimensions, fst screen_dimensions, 0],
            overlays = ax\<rparr>))))))"

section \<open>AOI membership\<close>

text \<open>
  Modelled from the spec: the membership test of \<^verbatim>\<open>processing.py\<close>
  (\<^verbatim>\<open>define_aoi\<close>, \<^verbatim>\<open>percent_data_in_aoi\<close>), which is not among the sources. The spec:
  "For a rectangle AOI: point (x, y) is inside iff x1 \<le> x < x2 and y1 \<le> y < y2
  (upper bound exclusive, lower inclusive). For a circle AOI: point (x, y) is inside
  iff (x - cx)^2 + (y - cy)^2 \<le> r^2."
\<close>

datatype aoi_definition =
    Rectangle real real real real
  | Circle real real real

fun inside :: "aoi_definition \<Rightarrow> real \<times> real \<Rightarrow> bool" where
  "inside (Rectangle x1 x2 y1 y2) (x, y) = (x1 \<le> x \<and> x < x2 \<and> y1 \<le> y \<and> y < y2)"
| "inside (Circle cx cy r) (x, y) = ((x - cx)\<^sup>2 + (y - cy)\<^sup>2 \<le> r\<^sup>2)"

section \<open>Predicates of the specification\<close>

text \<open>
  A malformed \<^verbatim>\<open>bins\<close> argument, in the words of the specification: not None, not an
  integer, and not a tuple, list or array of length 2.
\<close>

fun malformed_bins :: "bins_arg \<Rightarrow> bool" where
  "malformed_bins BinsNone = False"
| "malformed_bins (BinsInt n) = False"
| "malformed_bins (BinsSeq bs) = (length bs \<noteq> 2)"
| "malformed_bins BinsArray0d = True"
| "malformed_bins BinsOther = True"

text \<open>
  A sample outside the screen, in the words of the specification: x < 0, x \<ge> width,
  y < 0 or y \<ge> height, for the screen dimensions (height, width).
\<close>

definition outside_screen :: "int \<times> int \<Rightarrow> cell \<Rightarrow> cell \<Rightarrow> bool" where
  "outside_screen screen_dimensions x y =
     (cell_lt x 0 \<or> cell_ge x (real_of_int (snd screen_dimensions)) \<or>
      cell_lt y 0 \<or> cell_ge y (real_of_int (fst screen_dimensions)))"

text \<open>
  A row outside the screen: the sample whose coordinates are those that
  \<^verbatim>\<open>dataframe_validation\<close> extracts lies outside the screen.
\<close>

definition row_outside :: "dataframe \<Rightarrow> int \<times> int \<Rightarrow> int \<times> cell list \<Rightarrow> bool" where
  "row_outside data screen_dimensions r =
     (if ''xpos'' \<in> set (columns data) \<and> ''ypos'' \<in> set (columns data) then
        outside_screen screen_dimensions
          (cell_at (columns data) ''xpos'' r) (cell_at (columns data) ''ypos'' r)
      else
        outside_screen screen_dimensions
          (cell_at (columns data) ''axp'' r) (cell_at (columns data) ''ayp'' r))"

section \<open>Facts about the floating-point numbers\<close>

lemma round_half_even_of_int: "round_half_even (real_of_int k) = k"
  by (simp add: round_half_even_def)

lemma round_half_even_error: "\<bar>real_of_int (round_half_even y) - y\<bar> \<le> 1 / 2"
  unfolding round_half_even_def Let_def by (auto simp: abs_if) linarith+

lemma round_half_even_nonpos: "y \<le> 0 \<Longrightarrow> round_half_even y \<le> 0"
  unfolding round_half_even_def Let_def
  by (auto simp: not_less)

lemma log2_floor_bounds:
  assumes "0 < x"
  shows "2 powr real_of_int \<lfloor>log 2 x\<rfloor> \<le> x" and "x < 2 powr (real_of_int \<lfloor>log 2 x\<rfloor> + 1)"
proof -
  have a: "(2 powr y \<le> x) = (y \<le> log 2 x)" for y
    using assms by (simp add: le_log_iff)
  show "2 powr real_of_int \<lfloor>log 2 x\<rfloor> \<le> x"
    unfolding a by simp
  have b: "(x < 2 powr y) = (log 2 x < y)" for y
    using assms by (simp add: log_less_iff)
  show "x < 2 powr (real_of_int \<lfloor>log 2 x\<rfloor> + 1)"
    unfolding b by linarith
qed

lemma round_to_float_unit:
  "x \<noteq> 0 \<Longrightarrow> round_to_float x = real_of_int (round_half_even (x / float_unit x)) * float_unit x"
  by (simp add: round_to_float_def)

lemma float_unit_pos: "0 < float_unit x"
  by (simp add: float_unit_def)

text \<open>
  A number below the \<open>m\<close>-th power of two has an exponent below \<open>m\<close>, and a unit in
  the last place of at most the power \<open>m - 53\<close> of two.
\<close>

lemma float_exponent_less:
  assumes "x \<noteq> 0" and "\<bar>x\<bar> < 2 powr real_of_int m"
  shows "\<lfloor>log 2 \<bar>x\<bar>\<rfloor> < m"
proof -
  have "2 powr real_of_int \<lfloor>log 2 \<bar>x\<bar>\<rfloor> \<le> \<bar>x\<bar>"
    using assms log2_floor_bounds(1)[of "\<bar>x\<bar>"] by simp
  then have "2 powr real_of_int \<lfloor>log 2 \<bar>x\<bar>\<rfloor> < 2 powr real_of_int m"
    using assms by linarith
  then have "real_of_int \<lfloor>log 2 \<bar>x\<bar>\<rfloor> < real_of_int m" by (rule powr_less_cancel) simp
  then show ?thesis by linarith
qed

lemma float_unit_le:
  assumes "x \<noteq> 0" and "\<bar>x\<bar> < 2 powr real_of_int m"
  shows "float_unit x \<le> 2 powr (real_of_int m - 53)"
proof -
  have "\<lfloor>log 2 \<bar>x\<bar>\<rfloor> < m" by (rule float_exponent_less[OF assms])
  then have "real_of_int \<lfloor>log 2 \<bar>x\<bar>\<rfloor> - 52 \<le> real_of_int m - 53" by linarith
  then show ?thesis unfolding float_unit_def by simp
qed

lemma float_unit_le_abs: "x \<noteq> 0 \<Longrightarrow> float_unit x \<le> \<bar>x\<bar>"
proof -
  assume x: "x \<noteq> 0"
  have "float_unit x \<le> 2 powr real_of_int \<lfloor>log 2 \<bar>x\<bar>\<rfloor>"
    unfolding float_unit_def by simp
  also have "\<dots> \<le> \<bar>x\<bar>" using x log2_floor_bounds(1)[of "\<bar>x\<bar>"] by simp
  finally show ?thesis .
qed

text \<open>Rounding to a float moves a number by at most half a unit in the last place.\<close>

lemma round_to_float_error: "\<bar>round_to_float x - x\<bar> \<le> float_unit x / 2"
proof (cases "x = 0")
  case True
  then show ?thesis using float_unit_pos[of x] by (simp add: round_to_float_def)
next
  case False
  let ?u = "float_unit x"
  have u: "0 < ?u" by (rule float_unit_pos)
  have "round_to_float x - x = (real_of_int (round_half_even (x / ?u)) - x / ?u) * ?u"
    using u by (simp add: round_to_float_unit[OF False] algebra_simps)
  then have "\<bar>round_to_float x - x\<bar> = \<bar>real_of_int (round_half_even (x / ?u)) - x / ?u\<bar> * ?u"
    using u by (simp add: abs_mult)
  also have "\<dots> \<le> (1 / 2) * ?u"
    using round_half_even_error[of "x / ?u"] u by (intro mult_right_mono) auto
  finally show ?thesis by simp
qed

lemma round_to_float_nonpos: "x \<le> 0 \<Longrightarrow> round_to_float x \<le> 0"
proof (cases "x = 0")
  case True
  then show ?thesis by (simp add: round_to_float_def)
next
  case False
  assume "x \<le> 0"
  then have "x / float_unit x \<le> 0" using float_unit_pos[of x] by (simp add: divide_le_0_iff)
  then have "round_half_even (x / float_unit x) \<le> 0" by (rule round_half_even_nonpos)
  then show ?thesis
    using float_unit_pos[of x] unfolding round_to_float_unit[OF False]
    by (simp add: mult_le_0_iff)
qed

text \<open>
  An integer of fewer than 54 bits, divided by a power of two, is a float: rounding
  leaves it as it is.
\<close>

lemma round_to_float_dyadic:
  assumes "\<bar>k\<bar> < 2 ^ 53"
  shows "round_to_float (real_of_int k / 2 ^ n) = real_of_int k / 2 ^ n"
proof (cases "k = 0")
  case True
  then show ?thesis by (simp add: round_to_float_def)
next
  case False
  let ?x = "real_of_int k / 2 ^ n"
  let ?e = "\<lfloor>log 2 \<bar>?x\<bar>\<rfloor>"
  have x: "?x \<noteq> 0" using False by simp
  have "\<bar>real_of_int k\<bar> < 2 ^ 53"
    using assms by (metis of_int_abs of_int_less_iff of_int_numeral of_int_power)
  then have "\<bar>?x\<bar> < 2 ^ 53 / 2 ^ n"
    by (simp add: abs_divide divide_strict_right_mono)
  also have "(2::real) ^ 53 / 2 ^ n = 2 powr (real_of_int (53 - int n))"
    by (simp add: powr_diff powr_realpow)
  finally have "?e < 53 - int n" using x by (intro float_exponent_less)
  define m where "m = nat (52 - int n - ?e)"
  have m: "real_of_int ?e - 52 = - real (m + n)"
    using \<open>?e < 53 - int n\<close> by (simp add: m_def)
  have u: "float_unit ?x = 1 / 2 ^ (m + n)"
    unfolding float_unit_def m
    by (simp add: powr_minus powr_realpow inverse_eq_divide del: of_nat_add)
  have "?x / float_unit ?x = real_of_int (k * 2 ^ m)"
    by (simp add: u power_add)
  then have "round_half_even (?x / float_unit ?x) = k * 2 ^ m"
    by (simp only: round_half_even_of_int)
  then show ?thesis
    unfolding round_to_float_unit[OF x] by (simp add: u power_add)
qed

lemma round_to_float_of_int:
  "\<bar>k\<bar> < 2 ^ 53 \<Longrightarrow> round_to_float (real_of_int k) = real_of_int k"
  using round_to_float_dyadic[of k 0] by simp

text \<open>
  The default bins: for a screen dimension \<open>w\<close> from 0 to below \<open>20 * 2 ^ 48\<close>
  the float quotient, truncated, is \<open>w div 20\<close>, the floor of the exact quotient.
\<close>

lemma int_div20_float:
  assumes "0 \<le> w" and "w div 20 < 2 ^ 48"
  shows "py_int (round_to_float (real_of_int w / 20)) = w div 20 \<and>
         \<bar>round_to_float (real_of_int w / 20)\<bar> < 2 ^ 49"
proof -
  let ?q = "w div 20" and ?r = "w mod 20"
  let ?x = "real_of_int w / 20"
  have q0: "0 \<le> ?q" using assms by simp
  have r: "0 \<le> ?r" "?r < 20" by simp_all
  have "real_of_int w = real_of_int (20 * ?q + ?r)" by simp
  then have "real_of_int w = 20 * real_of_int ?q + real_of_int ?r"
    by (simp only: of_int_add of_int_mult of_int_numeral)
  then have xq: "?x = real_of_int ?q + real_of_int ?r / 20"
    by simp
  have "?q + 1 \<le> 2 ^ 48" using assms(2) by simp
  then have "real_of_int (?q + 1) \<le> real_of_int (2 ^ 48)" by (simp only: of_int_le_iff)
  then have q48: "real_of_int ?q + 1 \<le> 2 ^ 48" by simp
  show ?thesis
  proof (cases "?r = 0")
    case True
    then have x: "?x = real_of_int ?q" using xq by simp
    have "\<bar>?q\<bar> < 2 ^ 53" using q0 assms(2) by simp
    then have "round_to_float ?x = real_of_int ?q"
      unfolding x by (rule round_to_float_of_int)
    then show ?thesis using q0 q48 by (simp add: py_int_def)
  next
    case False
    then have r1: "1 \<le> ?r" using r by linarith
    have lo: "real_of_int ?q + 1 / 20 \<le> ?x" unfolding xq using r1 by simp
    have hi: "?x \<le> real_of_int ?q + 19 / 20" unfolding xq using r(2) by simp
    have x0: "?x \<noteq> 0" "0 < ?x" using lo q0 by auto
    have "\<bar>?x\<bar> < 2 powr real_of_int 48"
      using hi x0 q48 by (simp add: powr_realpow)
    then have "float_unit ?x \<le> 2 powr (real_of_int 48 - 53)"
      using x0 by (intro float_unit_le) auto
    also have "\<dots> = 2 powr (- 5)" by simp
    also have "\<dots> = 1 / 32" by (simp add: powr_minus)
    finally have "float_unit ?x / 2 \<le> 1 / 64" by simp
    then have err: "\<bar>round_to_float ?x - ?x\<bar> \<le> 1 / 64"
      using round_to_float_error[of ?x] by linarith
    have a: "real_of_int ?q < round_to_float ?x" using err lo by linarith
    have b: "round_to_float ?x < real_of_int ?q + 1" using err hi by linarith
    have "\<lfloor>round_to_float ?x\<rfloor> = ?q" using a b by linarith
    moreover have "0 \<le> round_to_float ?x" using a q0 by linarith
    moreover have "round_to_float ?x < 2 ^ 49"
      using b q48 by simp
    ultimately show ?thesis by (simp add: py_int_def)
  qed
qed

text \<open>Whatever the dimension: the default count is at least one iff the dimension is at least 20.\<close>

lemma int_div20_ge1: "(1 \<le> py_int (round_to_float (real_of_int w / 20))) = (20 \<le> w)"
proof -
  let ?x = "real_of_int w / 20"
  consider "w < 0" | "0 \<le> w" "w div 20 < 2 ^ 48" | "2 ^ 48 \<le> w div 20" by linarith
  then show ?thesis
  proof cases
    case 1
    then have "?x \<le> 0" by simp
    then have "round_to_float ?x \<le> 0" by (rule round_to_float_nonpos)
    then have "py_int (round_to_float ?x) \<le> 0"
      by (auto simp: py_int_def ceiling_le_iff)
    with 1 show ?thesis by simp
  next
    case 2
    then have "py_int (round_to_float ?x) = w div 20"
      using int_div20_float by blast
    then show ?thesis using 2 by simp linarith
  next
    case 3
    then have w: "20 * 2 ^ 48 \<le> w" by linarith
    then have "real_of_int (20 * 2 ^ 48) \<le> real_of_int w" by (simp only: of_int_le_iff)
    then have x: "2 ^ 48 \<le> ?x" by simp
    then have x0: "?x \<noteq> 0" "\<bar>?x\<bar> = ?x" by auto
    have "\<bar>round_to_float ?x - ?x\<bar> \<le> ?x / 2"
      using round_to_float_error[of ?x] float_unit_le_abs[OF x0(1)] x0(2) by linarith
    moreover have "(2::real) \<le> 2 ^ 48" by simp
    ultimately have "1 \<le> round_to_float ?x" using x by linarith
    then have "1 \<le> py_int (round_to_float ?x)"
      by (simp add: py_int_def le_floor_iff)
    with w show ?thesis by simp
  qed
qed

lemma true_div_20_small:
  assumes "0 \<le> w" and "w div 20 < 2 ^ 48"
  shows "\<exists>q. true_div w 20 = Inr q \<and> py_int q = w div 20"
proof -
  have "\<bar>round_to_float (real_of_int w / 20)\<bar> < 2 ^ 49"
    using int_div20_float[OF assms] by simp
  also have "(2::real) ^ 49 \<le> 2 ^ 1024" by (rule power_increasing) simp_all
  finally have "true_div w 20 = Inr (round_to_float (real_of_int w / 20))"
    by (simp add: true_div_def)
  then show ?thesis using int_div20_float[OF assms] by simp
qed

lemma true_div_20_ge1: "true_div w 20 = Inr q \<Longrightarrow> (1 \<le> py_int q) = (20 \<le> w)"
  using int_div20_ge1[of w] by (auto simp: true_div_def split: if_splits)

text \<open>
  Beyond 53 bits the quotient is rounded: \<open>180143985094819860 / 20\<close> is
  \<open>2 ^ 53 + 1\<close>, halfway between two floats, and becomes \<open>2 ^ 53\<close>.
\<close>

lemma float_unit_2_53: "float_unit 9007199254740993 = 2"
proof -
  have "\<lfloor>log 2 \<bar>9007199254740993::real\<bar>\<rfloor> = 53"
  proof (rule floor_unique)
    have a: "(2 powr y \<le> 9007199254740993) = (y \<le> log 2 9007199254740993)" for y :: real
      by (simp add: le_log_iff)
    have b: "(9007199254740993 < 2 powr y) = (log 2 9007199254740993 < y)" for y :: real
      by (simp add: log_less_iff)
    have "(2::real) powr 53 \<le> 9007199254740993" by simp
    then show "real_of_int 53 \<le> log 2 \<bar>9007199254740993\<bar>" using a[of 53] by simp
    have "(9007199254740993::real) < 2 powr 54" by simp
    then show "log 2 \<bar>9007199254740993\<bar> < real_of_int 53 + 1" using b[of 54] by simp
  qed
  then show ?thesis by (simp add: float_unit_def)
qed

lemma wide_screen_quotient: "round_to_float (real_of_int 180143985094819860 / 20) = 9007199254740992"
proof -
  have h: "round_half_even (9007199254740993 / 2) = 4503599627370496"
    by (simp add: round_half_even_def Let_def)
  show ?thesis
    by (simp add: round_to_float_def float_unit_2_53 h)
qed

section \<open>Facts about \<^verbatim>\<open>plot_heatmap\<close>\<close>

lemma dropna_xy:
  "dropna data [''xpos'', ''ypos''] =
     (if ''xpos'' \<in> set (columns data) \<and> ''ypos'' \<in> set (columns data) then
        Inr (data\<lparr>rows := filter (\<lambda>r. \<not> isna (cell_at (columns data) ''xpos'' r) \<and>
                                      \<not> isna (cell_at (columns data) ''ypos'' r)) (rows data)\<rparr>)
      else Inl KeyError)"
  by (auto simp: dropna_def)

lemma heatmap_data_eq:
  "heatmap_data data sd =
     (if ''xpos'' \<in> set (columns data) \<and> ''ypos'' \<in> set (columns data) then
        Inr (data\<lparr>rows := filter (\<lambda>r. \<not> isna (cell_at (columns data) ''xpos'' r) \<and>
                                      \<not> isna (cell_at (columns data) ''ypos'' r) \<and>
                                      on_screen (columns data) sd r) (rows data)\<rparr>)
      else Inl KeyError)"
  by (auto simp: heatmap_data_def dropna_xy bind_err_def intro: filter_cong)

lemma heatmap_data_no_nan:
  assumes "heatmap_data data sd = Inr d"
  shows "\<not> list_ex isna (map (cell_at (columns d) ''xpos'') (rows d))"
    and "\<not> list_ex isna (map (cell_at (columns d) ''ypos'') (rows d))"
  using assms by (auto simp: heatmap_data_eq list_ex_iff split: if_splits)

text \<open>
  Once the data are filtered, the samples hold no NaN, and what is left of
  \<^verbatim>\<open>plot_heatmap\<close> is the choice of the bins, numpy's tests of the two counts, its
  arrays and the overlay.
\<close>

lemma plot_heatmap_eq:
  assumes "heatmap_data data sd = Inr d"
  shows "plot_heatmap aoi_valid allocate data sd aoi bins =
     bind_err (determine_bins sd bins) (\<lambda>(bins_x, bins_y).
       if bins_x < 1 then Inl (ValueError ''`bins[0]` must be positive, when an integer'')
       else bind_err (allocated (allocate [bins_x])) (\<lambda>_.
         if bins_y < 1 then Inl (ValueError ''`bins[1]` must be positive, when an integer'')
         else bind_err (allocated (allocate [bins_y])) (\<lambda>_.
           bind_err (allocated (allocate [bins_x, bins_y])) (\<lambda>_.
           bind_err (case aoi of None \<Rightarrow> Inr [] | Some a \<Rightarrow> overlay_aoi aoi_valid a sd []) (\<lambda>ax.
             Inr \<lparr>heatmap = \<lparr>sample_x = map (cell_at (columns d) ''xpos'') (rows d),
                             sample_y = map (cell_at (columns d) ''ypos'') (rows d),
                             bin_counts = (bins_x, bins_y)\<rparr>,
                  extent = [0, snd sd, fst sd, 0], overlays = ax\<rparr>)))))"
proof -
  have c: "''xpos'' \<in> set (columns d)" "''ypos'' \<in> set (columns d)"
    using assms by (auto simp: heatmap_data_eq split: if_splits)
  show ?thesis
    using heatmap_data_no_nan[OF assms] c
    by (simp add: plot_heatmap_def assms bind_err_def get_column_def np_histogram2d_def
        split: sum.splits prod.splits)
qed

lemma plot_heatmap_no_columns:
  "\<not> (''xpos'' \<in> set (columns data) \<and> ''ypos'' \<in> set (columns data)) \<Longrightarrow>
   plot_heatmap aoi_valid allocate data sd aoi bins = Inl KeyError"
  by (auto simp: plot_heatmap_def heatmap_data_eq bind_err_def)

lemma heatmap_data_defined:
  "''xpos'' \<in> set (columns data) \<Longrightarrow> ''ypos'' \<in> set (columns data) \<Longrightarrow>
   \<exists>d. heatmap_data data sd = Inr d"
  by (simp add: heatmap_data_eq)

lemma allocated_Inr: "(allocated a = Inr u) = (a = Allocated)"
  by (cases a) simp_all

lemma allocated_error:
  "allocated a = Inl e \<Longrightarrow> e = ValueError ''Maximum allowed size exceeded'' \<or> e = MemoryError"
  by (cases a) simp_all

section \<open>Facts about \<^verbatim>\<open>overlay_aoi\<close> and the bins\<close>

lemma draw_aoi_error:
  "draw_aoi a = Inl e \<Longrightarrow> e = ValueError ''wrong number of values to unpack''"
  by (auto simp: draw_aoi_def split: if_splits list.splits)

lemma overlay_loop_error:
  "overlay_loop as ax = Inl e \<Longrightarrow> e = ValueError ''wrong number of values to unpack''"
  by (induction as arbitrary: ax) (auto simp: bind_err_def split: sum.splits dest: draw_aoi_error)

lemma overlay_aoi_error:
  "overlay_aoi aoi_valid as sd ax = Inl e \<Longrightarrow>
   e = ValidationError \<or> e = ValueError ''wrong number of values to unpack''"
  by (auto simp: overlay_aoi_def aoi_definitions_validation_def screen_dimensions_validation_def
      bind_err_def split: if_splits dest: overlay_loop_error)

lemma determine_bins_rejects:
  "(determine_bins sd bins =
      Inl (ValueError ''`bins` must be an integer or a tuple of two integers.'')) =
   (malformed_bins bins \<and> bins \<noteq> BinsArray0d)"
  by (cases bins) (auto simp: determine_bins_def bind_err_def true_div_def)

lemma determine_bins_default:
  assumes "0 \<le> fst sd" "fst sd div 20 < 2 ^ 48" "0 \<le> snd sd" "snd sd div 20 < 2 ^ 48"
  shows "determine_bins sd BinsNone = Inr (snd sd div 20, fst sd div 20)"
  using true_div_20_small[OF assms(1,2)] true_div_20_small[OF assms(3,4)]
  by (auto simp: determine_bins_def bind_err_def)

lemma determine_bins_default_ge1:
  "determine_bins sd BinsNone = Inr (bins_x, bins_y) \<Longrightarrow>
   (1 \<le> bins_x) = (20 \<le> snd sd) \<and> (1 \<le> bins_y) = (20 \<le> fst sd)"
  by (auto simp: determine_bins_def bind_err_def true_div_20_ge1 split: sum.splits)

lemma overlay_loop_Inr:
  "(overlay_loop as ax = Inr ax') =
   (\<exists>ls. map draw_aoi as = map Inr ls \<and> ax' = ax @ concat ls)"
proof (induction as arbitrary: ax)
  case Nil
  then show ?case by auto
next
  case (Cons a as)
  show ?case
  proof (cases "draw_aoi a")
    case (Inl e)
    then show ?thesis by (auto simp: bind_err_def map_eq_Cons_conv)
  next
    case (Inr l)
    then show ?thesis
      by (auto simp: bind_err_def Cons.IH map_eq_Cons_conv Cons_eq_map_conv)
  qed
qed

section \<open>Facts about \<^verbatim>\<open>plot_as_scatter\<close>\<close>

lemma clean_data_columns: "clean_data data sd = Inr c \<Longrightarrow> columns c = columns data"
  by (auto simp: clean_data_def bind_err_def drop_index_def split: sum.splits prod.splits if_splits)

lemma scatter_points_no_rows:
  "''axp'' \<in> set (columns c) \<Longrightarrow> ''ayp'' \<in> set (columns c) \<Longrightarrow> rows c = [] \<Longrightarrow>
   scatter_points c ms = Inl (ValueError ''max() arg is an empty sequence'')"
  by (simp add: scatter_points_def bind_err_def)

text \<open>
  With AOI definitions the call ends at line 92 if it gets there; without them and
  without saving, it returns the figure there.
\<close>

lemma plot_as_scatter_aoi:
  "plot_as_scatter can_save data sd (Some a) save_png save_path ms =
     (case plot_as_scatter can_save data sd None False save_path ms of
        Inl e \<Rightarrow> Inl e
      | Inr fig \<Rightarrow> Inl AttributeError)"
  by (simp add: plot_as_scatter_def bind_err_def split: sum.splits prod.splits)

lemma set_np_where: "set (np_where (map P xs)) = {i. i < length xs \<and> P (xs ! i)}"
  by (auto simp: np_where_def)

lemma set_out_of_bounds:
  "length xs = length ys \<Longrightarrow>
   set (out_of_bounds xs ys sd) = {i. i < length xs \<and> outside_screen sd (xs ! i) (ys ! i)}"
  by (auto simp: out_of_bounds_def Let_def set_np_where outside_screen_def)

lemma dataframe_validation_Inr:
  "(\<exists>xs ys. dataframe_validation data = Inr (xs, ys)) =
   ((''xpos'' \<in> set (columns data) \<and> ''ypos'' \<in> set (columns data)) \<or>
    (''axp'' \<in> set (columns data) \<and> ''ayp'' \<in> set (columns data)))"
  by (auto simp: dataframe_validation_def)

lemma validated_out_of_bounds:
  assumes "dataframe_validation data = Inr (xs, ys)"
  shows "set (out_of_bounds xs ys sd) =
           {i. i < length (rows data) \<and> row_outside data sd (rows data ! i)}"
proof -
  have "length xs = length ys" "length xs = length (rows data)"
    using assms by (auto simp: dataframe_validation_def split: if_splits)
  moreover have "\<And>i. i < length (rows data) \<Longrightarrow>
      outside_screen sd (xs ! i) (ys ! i) = row_outside data sd (rows data ! i)"
    using assms by (auto simp: dataframe_validation_def row_outside_def split: if_splits)
  ultimately show ?thesis
    by (auto simp: set_out_of_bounds)
qed

lemma range_index_label:
  "range_index data \<Longrightarrow> i < length (rows data) \<Longrightarrow> label (rows data ! i) = int i"
proof -
  assume r: "range_index data" and i: "i < length (rows data)"
  have "label (rows data ! i) = map label (rows data) ! i" using i by simp
  also have "\<dots> = map int [0..<length (rows data)] ! i" using r by (simp add: range_index_def)
  also have "\<dots> = int i" using i by simp
  finally show ?thesis .
qed

text \<open>
  On a frame with the default index the positions are the labels, and the cleaning
  removes exactly the rows outside the screen.
\<close>

lemma clean_data_range_index:
  assumes ri: "range_index data" and v: "dataframe_validation data = Inr (xs, ys)"
  shows "clean_data data sd =
           Inr (data\<lparr>rows := filter (\<lambda>r. \<not> row_outside data sd r) (rows data)\<rparr>)"
proof -
  let ?oob = "out_of_bounds xs ys sd"
  have S: "set ?oob = {i. i < length (rows data) \<and> row_outside data sd (rows data ! i)}"
    by (rule validated_out_of_bounds[OF v])
  have found: "\<not> list_ex (\<lambda>l. l \<notin> set (map label (rows data))) (map int ?oob)"
  proof -
    have "int i \<in> set (map label (rows data))" if "i \<in> set ?oob" for i
    proof -
      from that S have "i < length (rows data)" by auto
      then have "label (rows data ! i) = int i" "rows data ! i \<in> set (rows data)"
        using ri by (simp_all add: range_index_label)
      then show ?thesis by (metis image_eqI set_map)
    qed
    then show ?thesis by (auto simp: list_ex_iff)
  qed
  have same: "filter (\<lambda>r. label r \<notin> set (map int ?oob)) (rows data) =
              filter (\<lambda>r. \<not> row_outside data sd r) (rows data)"
  proof (rule filter_cong[OF refl])
    fix r assume "r \<in> set (rows data)"
    then obtain i where i: "i < length (rows data)" "rows data ! i = r"
      by (auto simp: in_set_conv_nth)
    then have l: "label r = int i" using ri range_index_label by blast
    have "(label r \<in> set (map int ?oob)) = (i \<in> set ?oob)"
      unfolding l by auto
    also have "\<dots> = row_outside data sd r" using S i by auto
    finally show "(label r \<notin> set (map int ?oob)) = (\<not> row_outside data sd r)" by simp
  qed
  show ?thesis
    using found same by (simp add: clean_data_def v bind_err_def drop_index_def)
qed

text \<open>Whatever the index: a frame with no row outside the screen is left as it is.\<close>

lemma clean_data_nothing_outside:
  assumes v: "dataframe_validation data = Inr (xs, ys)"
    and "\<not> list_ex (row_outside data sd) (rows data)"
  shows "clean_data data sd = Inr data"
proof -
  have "set (out_of_bounds xs ys sd) = {}"
    using assms(2) unfolding validated_out_of_bounds[OF v] by (auto simp: list_ex_iff)
  then have "out_of_bounds xs ys sd = []" by simp
  then show ?thesis
    by (simp add: clean_data_def v bind_err_def drop_index_def)
qed

lemma row_outside_columns:
  "columns c = columns data \<Longrightarrow> row_outside c sd = row_outside data sd"
  by (auto simp: row_outside_def fun_eq_iff)

lemma dataframe_validation_columns:
  "columns c = columns data \<Longrightarrow> dataframe_validation data = Inr (xs, ys) \<Longrightarrow>
   \<exists>xs' ys'. dataframe_validation c = Inr (xs', ys')"
  using dataframe_validation_Inr[of c] dataframe_validation_Inr[of data] by auto

text \<open>On a frame with the default index, cleaning the cleaned frame changes nothing.\<close>

lemma clean_data_twice_range_index:
  assumes ri: "range_index data" and c: "clean_data data sd = Inr c"
  shows "clean_data c sd = Inr c"
proof -
  obtain xs ys where v: "dataframe_validation data = Inr (xs, ys)"
    using c by (auto simp: clean_data_def bind_err_def split: sum.splits)
  have ceq: "c = data\<lparr>rows := filter (\<lambda>r. \<not> row_outside data sd r) (rows data)\<rparr>"
    using clean_data_range_index[OF ri v, of sd] c by simp
  then have cols: "columns c = columns data" by simp
  obtain xs' ys' where v': "dataframe_validation c = Inr (xs', ys')"
    using dataframe_validation_columns[OF cols v] by blast
  have "\<not> list_ex (row_outside c sd) (rows c)"
    unfolding row_outside_columns[OF cols] by (simp add: ceq list_ex_iff)
  then show ?thesis by (rule clean_data_nothing_outside[OF v'])
qed






section \<open>The claims\<close>

subsection \<open>AOI membership\<close>

text \<open>
  Claim C8. A point is inside a rectangle AOI (x1, x2, y1, y2) iff x1 \<le> x < x2 and
  y1 \<le> y < y2, lower bounds inclusive and upper bounds exclusive; it is inside a
  circle AOI (cx, cy, r) iff (x - cx)^2 + (y - cy)^2 \<le> r^2, the boundary included.
  For the rectangle (10, 20, 10, 20) the points (10, 10) and (19, 19) are inside
  and (20, 20) is outside.
\<close>

theorem aoi_membership:
  "inside (Rectangle x1 x2 y1 y2) (x, y) = (x1 \<le> x \<and> x < x2 \<and> y1 \<le> y \<and> y < y2) \<and>
   inside (Circle cx cy r) (x, y) = ((x - cx)\<^sup>2 + (y - cy)\<^sup>2 \<le> r\<^sup>2) \<and>
   inside (Rectangle 10 20 10 20) (10, 10) \<and>
   inside (Rectangle 10 20 10 20) (19, 19) \<and>
   \<not> inside (Rectangle 10 20 10 20) (20, 20)"
  by simp

subsection \<open>Coordinates of the AOIs drawn by \<^verbatim>\<open>overlay_aoi\<close>\<close>

text \<open>
  Claim C7. For every AOI that \<^verbatim>\<open>overlay_aoi\<close> processes, the four coordinates of a
  rectangle are converted with \<^verbatim>\<open>int()\<close> before they are used, so that the line
  drawn has integer corners, while the centre and the radius of a circle are used
  as they are, as floats. \<^verbatim>\<open>overlay_aoi\<close> returns axes exactly when the validations
  pass and every AOI can be drawn, and the axes then hold the lines of all AOIs in
  their order.
\<close>

theorem aoi_coordinate_conversion:
  "(lower (shape a) = ''rectangle'' \<and> coordinates a = [c1, c2, c3, c4] \<longrightarrow>
      draw_aoi a = Inr [IntLine [py_int c1, py_int c2, py_int c2, py_int c1, py_int c1]
                                [py_int c3, py_int c3, py_int c4, py_int c4, py_int c3]]) \<and>
   (lower (shape a) = ''circle'' \<and> coordinates a = [x_center, y_center, radius] \<longrightarrow>
      draw_aoi a = Inr [FloatLine (map (\<lambda>theta. x_center + radius * cos theta) linspace_0_2pi_100)
                                  (map (\<lambda>theta. y_center + radius * sin theta) linspace_0_2pi_100)]) \<and>
   (overlay_aoi aoi_valid aois sd ax = Inr ax') =
     (aoi_valid aois sd \<and> 0 < fst sd \<and> 0 < snd sd \<and>
      (\<exists>ls. map draw_aoi aois = map Inr ls \<and> ax' = ax @ concat ls))"
proof -
  have rect: "lower (shape a) = ''rectangle'' \<and> coordinates a = [c1, c2, c3, c4] \<longrightarrow>
      draw_aoi a = Inr [IntLine [py_int c1, py_int c2, py_int c2, py_int c1, py_int c1]
                                [py_int c3, py_int c3, py_int c4, py_int c4, py_int c3]]"
    by (simp add: draw_aoi_def)
  have circ: "lower (shape a) = ''circle'' \<and> coordinates a = [x_center, y_center, radius] \<longrightarrow>
      draw_aoi a = Inr [FloatLine (map (\<lambda>theta. x_center + radius * cos theta) linspace_0_2pi_100)
                                  (map (\<lambda>theta. y_center + radius * sin theta) linspace_0_2pi_100)]"
    by (simp add: draw_aoi_def circle_boundary_def)
  have all: "(overlay_aoi aoi_valid aois sd ax = Inr ax') =
     (aoi_valid aois sd \<and> 0 < fst sd \<and> 0 < snd sd \<and>
      (\<exists>ls. map draw_aoi aois = map Inr ls \<and> ax' = ax @ concat ls))"
    by (auto simp: overlay_aoi_def aoi_definitions_validation_def screen_dimensions_validation_def
        bind_err_def overlay_loop_Inr)
  from rect circ all show ?thesis by blast
qed

text \<open>
  The theorem at a rectangle with the bounds 1.5, 2, 3 and -4.5, which \<^verbatim>\<open>int()\<close>
  truncates to 1, 2, 3 and -4, and at a circle of centre (50.5, 50) and radius 10.5.
\<close>

theorem aoi_coordinate_conversion_witness:
  "draw_aoi \<lparr>shape = ''Rectangle'', coordinates = [3 / 2, 2, 3, - (9 / 2)]\<rparr> =
     Inr [IntLine [1, 2, 2, 1, 1] [3, 3, - 4, - 4, 3]] \<and>
   draw_aoi \<lparr>shape = ''circle'', coordinates = [101 / 2, 50, 21 / 2]\<rparr> =
     Inr [FloatLine (map (\<lambda>theta. 101 / 2 + 21 / 2 * cos theta) linspace_0_2pi_100)
                    (map (\<lambda>theta. 50 + 21 / 2 * sin theta) linspace_0_2pi_100)] \<and>
   overlay_aoi (\<lambda>a s. True)
     [\<lparr>shape = ''Rectangle'', coordinates = [3 / 2, 2, 3, - (9 / 2)]\<rparr>,
      \<lparr>shape = ''circle'', coordinates = [101 / 2, 50, 21 / 2]\<rparr>] (100, 100) [] =
     Inr [IntLine [1, 2, 2, 1, 1] [3, 3, - 4, - 4, 3],
          FloatLine (map (\<lambda>theta. 101 / 2 + 21 / 2 * cos theta) linspace_0_2pi_100)
                    (map (\<lambda>theta. 50 + 21 / 2 * sin theta) linspace_0_2pi_100)]"
proof -
  let ?R = "\<lparr>shape = ''Rectangle'', coordinates = [3 / 2, 2, 3, - (9 / 2)]\<rparr>"
  let ?C = "\<lparr>shape = ''circle'', coordinates = [101 / 2, 50, 21 / 2]\<rparr>"
  let ?lr = "IntLine [1, 2, 2, 1, 1] [3, 3, - 4, - 4, 3]"
  let ?lc = "FloatLine (map (\<lambda>theta. 101 / 2 + 21 / 2 * cos theta) linspace_0_2pi_100)
                    (map (\<lambda>theta. 50 + 21 / 2 * sin theta) linspace_0_2pi_100)"
  have low: "lower ''Rectangle'' = ''rectangle''" "lower ''circle'' = ''circle''"
    by (simp_all add: lower_def lower_char_def)
  have ints: "py_int (3 / 2) = 1" "py_int 2 = 2" "py_int 3 = 3" "py_int (- (9 / 2)) = - 4"
    by (simp_all add: py_int_def)
  note R = aoi_coordinate_conversion[of ?R "3 / 2" 2 3 "- (9 / 2)" 0 0 0 "\<lambda>a s. True"
      "[?R, ?C]" "(100, 100)" "[]" "[?lr, ?lc]"]
  note C = aoi_coordinate_conversion[of ?C 0 0 0 0 "101 / 2" 50 "21 / 2" "\<lambda>a s. True"
      "[?R, ?C]" "(100, 100)" "[]" "[?lr, ?lc]"]
  have "draw_aoi ?R = Inr [IntLine [py_int (3 / 2), py_int 2, py_int 2, py_int (3 / 2), py_int (3 / 2)]
                                [py_int 3, py_int 3, py_int (- (9 / 2)), py_int (- (9 / 2)), py_int 3]]"
    by (rule R[THEN conjunct1, THEN mp]) (simp add: low)
  then have r: "draw_aoi ?R = Inr [?lr]"
    by (simp add: ints)
  have c: "draw_aoi ?C = Inr [?lc]"
    by (rule C[THEN conjunct2, THEN conjunct1, THEN mp]) (simp add: low)
  have ex: "\<exists>ls. map draw_aoi [?R, ?C] = map Inr ls \<and> [?lr, ?lc] = [] @ concat ls"
    by (rule exI[of _ "[[?lr], [?lc]]"]) (simp add: r c)
  have "overlay_aoi (\<lambda>a s. True) [?R, ?C] (100, 100) [] = Inr [?lr, ?lc]"
    unfolding R[THEN conjunct2, THEN conjunct2] using ex by simp
  with r c show ?thesis by simp
qed

subsection \<open>Duration-weighted scatter plots need a sample on the screen\<close>

text \<open>
  Claim C9. On duration-weighted input (columns \<^verbatim>\<open>axp\<close> and \<^verbatim>\<open>ayp\<close>) \<^verbatim>\<open>plot_as_scatter\<close>
  returns a figure only when at least one row remains after the out-of-bounds
  filtering; when no row remains, the call raises the ValueError of \<^verbatim>\<open>max()\<close> on an
  empty list of durations instead of returning an empty figure.
\<close>

theorem duration_scatter_needs_rows:
  "''axp'' \<in> set (columns data) \<and> ''ayp'' \<in> set (columns data) \<longrightarrow>
   (\<forall>fig. plot_as_scatter can_save data sd aoi save_png save_path ms = Inr fig \<longrightarrow>
      (\<exists>clean. clean_data data sd = Inr clean \<and> rows clean \<noteq> [])) \<and>
   (\<forall>clean. screen_dimensions_validation sd = Inr () \<and> clean_data data sd = Inr clean \<and>
      rows clean = [] \<longrightarrow>
      plot_as_scatter can_save data sd aoi save_png save_path ms =
        Inl (ValueError ''max() arg is an empty sequence''))"
proof (intro impI conjI allI, goal_cases)
  case (1 fig)
  then obtain clean where c: "clean_data data sd = Inr clean"
    by (auto simp: plot_as_scatter_def bind_err_def split: sum.splits)
  have cols: "''axp'' \<in> set (columns clean)" "''ayp'' \<in> set (columns clean)"
    using 1 clean_data_columns[OF c] by auto
  have "rows clean \<noteq> []"
  proof
    assume "rows clean = []"
    from scatter_points_no_rows[OF cols this] 1(2) c show False
      by (auto simp: plot_as_scatter_def bind_err_def split: sum.splits)
  qed
  with c show ?case by blast
next
  case (2 clean)
  then have cols: "''axp'' \<in> set (columns clean)" "''ayp'' \<in> set (columns clean)"
    using clean_data_columns[of data sd clean] by auto
  from scatter_points_no_rows[OF cols] 2 show ?case
    by (simp add: plot_as_scatter_def bind_err_def)
qed

text \<open>
  The theorem at a frame whose only fixation is off the screen (the call raises)
  and at a frame with one fixation off and one on the screen (the call returns).
\<close>

theorem duration_scatter_needs_rows_witness:
  "plot_as_scatter (\<lambda>p. True)
     \<lparr>columns = [''axp'', ''ayp'', ''stime'', ''etime''],
      rows = [(0, [Num 200, Num 5, Num 10, Num 40])]\<rparr>
     (100, 100) None False None 60 =
     Inl (ValueError ''max() arg is an empty sequence'') \<and>
   plot_as_scatter (\<lambda>p. True)
     \<lparr>columns = [''axp'', ''ayp'', ''stime'', ''etime''],
      rows = [(0, [Num 200, Num 5, Num 10, Num 40]), (1, [Num 20, Num 5, Num 40, Num 90])]\<rparr>
     (100, 100) None False None 60 =
     Inr \<lparr>xlim = (0, 99), ylim = (0, 99), points = [(Num 20, Num 5)],
          sizes = ScaledSizes 60 [Num 50] (Num 50), saved_to = None\<rparr> \<and>
   (\<exists>clean. clean_data
     \<lparr>columns = [''axp'', ''ayp'', ''stime'', ''etime''],
      rows = [(0, [Num 200, Num 5, Num 10, Num 40]), (1, [Num 20, Num 5, Num 40, Num 90])]\<rparr>
     (100, 100) = Inr clean \<and> rows clean \<noteq> [])"
proof -
  let ?D1 = "\<lparr>columns = [''axp'', ''ayp'', ''stime'', ''etime''],
      rows = [(0, [Num 200, Num 5, Num 10, Num (40::real)])]\<rparr>"
  let ?D2 = "\<lparr>columns = [''axp'', ''ayp'', ''stime'', ''etime''],
      rows = [(0, [Num 200, Num 5, Num 10, Num 40]), (1, [Num 20, Num 5, Num 40, Num (90::real)])]\<rparr>"
  have c1: "clean_data ?D1 (100, 100) = Inr \<lparr>columns = [''axp'', ''ayp'', ''stime'', ''etime''], rows = []\<rparr>"
    by (simp add: clean_data_def dataframe_validation_def bind_err_def out_of_bounds_def np_where_def
        drop_index_def cell_at_def label_def)
  have f: "round_to_float 50 = 50" "round_to_float 5000 = 5000"
    using round_to_float_of_int[of 50] round_to_float_of_int[of 5000] by simp_all
  have h: "round_half_even 5000 = 5000"
    using round_half_even_of_int[of 5000] by simp
  have r2: "plot_as_scatter (\<lambda>p. True) ?D2 (100, 100) None False None 60 =
     Inr \<lparr>xlim = (0, 99), ylim = (0, 99), points = [(Num 20, Num 5)],
          sizes = ScaledSizes 60 [Num 50] (Num 50), saved_to = None\<rparr>"
    by (simp add: plot_as_scatter_def screen_dimensions_validation_def clean_data_def
        dataframe_validation_def bind_err_def out_of_bounds_def np_where_def
        drop_index_def cell_at_def label_def scatter_points_def row_get_def get_column_def
        f h)
  show ?thesis
    using duration_scatter_needs_rows[of ?D1 "\<lambda>p. True" "(100, 100)" None False None 60]
      duration_scatter_needs_rows[of ?D2 "\<lambda>p. True" "(100, 100)" None False None 60] c1 r2
    by (simp add: screen_dimensions_validation_def)
qed

subsection \<open>Samples on the far edge of the screen\<close>

text \<open>
  Claim C1 says that \<^verbatim>\<open>plot_as_scatter\<close> and \<^verbatim>\<open>plot_heatmap\<close> keep the same samples
  after their out-of-screen filtering. The code does not: \<^verbatim>\<open>plot_as_scatter\<close> drops a
  sample with x \<ge> width or y \<ge> height, \<^verbatim>\<open>plot_heatmap\<close> keeps one with x \<le> width and
  y \<le> height. On a screen of 100 by 100 the sample (100, 50) is dropped by the
  first and kept by the second.
\<close>

theorem boundary_sample_scatter_heatmap:
  "clean_data \<lparr>columns = [''xpos'', ''ypos''], rows = [(0, [Num 100, Num 50])]\<rparr> (100, 100) =
     Inr \<lparr>columns = [''xpos'', ''ypos''], rows = []\<rparr> \<and>
   heatmap_data \<lparr>columns = [''xpos'', ''ypos''], rows = [(0, [Num 100, Num 50])]\<rparr> (100, 100) =
     Inr \<lparr>columns = [''xpos'', ''ypos''], rows = [(0, [Num 100, Num 50])]\<rparr>"
  by (simp add: clean_data_def dataframe_validation_def bind_err_def out_of_bounds_def
      np_where_def drop_index_def cell_at_def label_def heatmap_data_eq on_screen_def)

subsection \<open>Cleaning a frame whose index is not the default one\<close>

text \<open>
  Claim C3 says that \<^verbatim>\<open>plot_as_scatter\<close> drops exactly the samples outside the screen,
  without raising an error for them, and keeps every sample on the screen. On a
  frame with the default index it does (\<open>clean_data_range_index\<close>). On other frames
  the code does not: the positions found by \<^verbatim>\<open>np.where\<close> are handed to
  \<^verbatim>\<open>data.drop(index=...)\<close>, which reads them as index labels. With the labels 1, 0
  the sample on the screen is dropped and the one off the screen is plotted; with
  the labels 10, 11 the call raises KeyError.
\<close>

theorem cleaning_by_label:
  "plot_as_scatter can_save
     \<lparr>columns = [''xpos'', ''ypos''], rows = [(1, [Num 5, Num 5]), (0, [Num 200, Num 5])]\<rparr>
     (100, 100) None False None 60 =
     Inr \<lparr>xlim = (0, 99), ylim = (0, 99), points = [(Num 200, Num 5)],
          sizes = FixedSize 60, saved_to = None\<rparr> \<and>
   plot_as_scatter can_save
     \<lparr>columns = [''xpos'', ''ypos''], rows = [(10, [Num 5, Num 5]), (11, [Num 200, Num 5])]\<rparr>
     (100, 100) None False None 60 = Inl KeyError"
  by (simp add: plot_as_scatter_def screen_dimensions_validation_def clean_data_def
      dataframe_validation_def bind_err_def out_of_bounds_def np_where_def
      drop_index_def cell_at_def label_def scatter_points_def get_column_def)

text \<open>
  Claim C6 says that the cleaning of \<^verbatim>\<open>plot_as_scatter\<close> is idempotent: cleaning a
  cleaned frame removes nothing. On a frame with the default index it is
  (\<open>clean_data_twice_range_index\<close>). On the frame with the labels 1, 0 it is not: the
  first cleaning leaves the sample off the screen, under the label 0, and the second
  cleaning removes it.
\<close>

theorem cleaning_twice_by_label:
  "clean_data
     \<lparr>columns = [''xpos'', ''ypos''], rows = [(1, [Num 5, Num 5]), (0, [Num 200, Num 5])]\<rparr>
     (100, 100) =
     Inr \<lparr>columns = [''xpos'', ''ypos''], rows = [(0, [Num 200, Num 5])]\<rparr> \<and>
   clean_data
     \<lparr>columns = [''xpos'', ''ypos''], rows = [(0, [Num 200, Num 5])]\<rparr> (100, 100) =
     Inr \<lparr>columns = [''xpos'', ''ypos''], rows = []\<rparr>"
  by (simp add: clean_data_def dataframe_validation_def bind_err_def out_of_bounds_def
      np_where_def drop_index_def cell_at_def label_def)

subsection \<open>AOI definitions given to \<^verbatim>\<open>plot_as_scatter\<close>\<close>

text \<open>
  Claim C4, amended. A call of \<^verbatim>\<open>plot_as_scatter\<close> with AOI definitions raises
  AttributeError exactly when it gets as far as plotting the points, that is, when
  the same call without AOI definitions and without saving returns a figure: line
  92 calls \<^verbatim>\<open>ax.overlay\<close>, which does not exist, and it does so before anything is
  saved. A call that fails before that line raises the earlier error. No call with
  AOI definitions returns a figure, so \<^verbatim>\<open>plot_as_scatter\<close> never draws an overlay.
\<close>

theorem scatter_overlay_attribute_error:
  "plot_as_scatter can_save data sd (Some a) save_png save_path ms =
     (case plot_as_scatter can_save data sd None False save_path ms of
        Inl e \<Rightarrow> Inl e
      | Inr fig \<Rightarrow> Inl AttributeError) \<and>
   \<not> (\<exists>fig. plot_as_scatter can_save data sd (Some a) save_png save_path ms = Inr fig)"
  by (simp add: plot_as_scatter_aoi split: sum.splits)

text \<open>
  The theorem at a plain frame with one sample on the screen, saving asked for in
  a directory that cannot be written: without AOIs and without saving a figure,
  with AOIs the AttributeError, without AOIs the error of the saving.
\<close>

theorem scatter_overlay_attribute_error_witness:
  "plot_as_scatter (\<lambda>p. False)
     \<lparr>columns = [''xpos'', ''ypos''], rows = [(0, [Num 15, Num 15])]\<rparr> (100, 100)
     None False (Some ''nowhere'') 60 =
     Inr \<lparr>xlim = (0, 99), ylim = (0, 99), points = [(Num 15, Num 15)],
          sizes = FixedSize 60, saved_to = None\<rparr> \<and>
   plot_as_scatter (\<lambda>p. False)
     \<lparr>columns = [''xpos'', ''ypos''], rows = [(0, [Num 15, Num 15])]\<rparr> (100, 100)
     (Some [\<lparr>shape = ''rectangle'', coordinates = [10, 20, 10, 20]\<rparr>]) True (Some ''nowhere'') 60 =
     Inl AttributeError \<and>
   plot_as_scatter (\<lambda>p. False)
     \<lparr>columns = [''xpos'', ''ypos''], rows = [(0, [Num 15, Num 15])]\<rparr> (100, 100)
     None True (Some ''nowhere'') 60 = Inl OSError"
proof -
  let ?D = "\<lparr>columns = [''xpos'', ''ypos''], rows = [(0, [Num 15, Num (15::real)])]\<rparr>"
  have r: "plot_as_scatter (\<lambda>p. False) ?D (100, 100) None False (Some ''nowhere'') 60 =
     Inr \<lparr>xlim = (0, 99), ylim = (0, 99), points = [(Num 15, Num 15)],
          sizes = FixedSize 60, saved_to = None\<rparr>"
    by (simp add: plot_as_scatter_def screen_dimensions_validation_def clean_data_def
        dataframe_validation_def bind_err_def out_of_bounds_def np_where_def
        drop_index_def cell_at_def label_def scatter_points_def get_column_def)
  have s: "plot_as_scatter (\<lambda>p. False) ?D (100, 100) None True (Some ''nowhere'') 60 = Inl OSError"
    by (simp add: plot_as_scatter_def screen_dimensions_validation_def clean_data_def
        dataframe_validation_def bind_err_def out_of_bounds_def np_where_def
        drop_index_def cell_at_def label_def scatter_points_def get_column_def)
  show ?thesis
    using scatter_overlay_attribute_error[of "\<lambda>p. False" ?D "(100, 100)"
        "[\<lparr>shape = ''rectangle'', coordinates = [10, 20, 10, 20]\<rparr>]" True "Some ''nowhere''" 60] r s
    by simp
qed

text \<open>
  Claim C4 as stated fails: a call with AOI definitions on duration-weighted data
  whose only fixation is off the screen raises the ValueError of \<^verbatim>\<open>max()\<close>, not
  AttributeError.
\<close>

theorem scatter_overlay_other_error:
  "plot_as_scatter (\<lambda>p. True)
     \<lparr>columns = [''axp'', ''ayp'', ''stime'', ''etime''],
      rows = [(0, [Num 200, Num 5, Num 10, Num 40])]\<rparr>
     (100, 100) (Some [\<lparr>shape = ''rectangle'', coordinates = [10, 20, 10, 20]\<rparr>]) False None 60 =
     Inl (ValueError ''max() arg is an empty sequence'')"
  by (simp add: plot_as_scatter_def screen_dimensions_validation_def clean_data_def
      dataframe_validation_def bind_err_def out_of_bounds_def np_where_def
      drop_index_def cell_at_def label_def scatter_points_def)

subsection \<open>The bins argument of the heatmap\<close>

text \<open>
  Claim C5, amended. \<^verbatim>\<open>plot_heatmap\<close> raises its ValueError for a malformed \<^verbatim>\<open>bins\<close>
  argument only if \<^verbatim>\<open>bins\<close> is not None, not an integer and not a tuple, list or
  array of length 2; and it raises it for every such argument but an array of
  dimension 0, on data that hold the columns \<^verbatim>\<open>xpos\<close> and \<^verbatim>\<open>ypos\<close>. On an array of
  dimension 0 \<^verbatim>\<open>len(bins)\<close> raises TypeError, and on data without \<^verbatim>\<open>xpos\<close> or \<^verbatim>\<open>ypos\<close>
  \<^verbatim>\<open>dropna\<close> raises KeyError before \<^verbatim>\<open>bins\<close> is looked at. For None the default bins
  \<^verbatim>\<open>int(screen_width / 20)\<close> and \<^verbatim>\<open>int(screen_height / 20)\<close> are used, for an integer
  that count in both dimensions, for a sequence of two its two counts for x and y,
  and a returned figure is made with exactly these counts.
\<close>

theorem bins_argument:
  "(plot_heatmap aoi_valid allocate data sd aoi bins =
      Inl (ValueError ''`bins` must be an integer or a tuple of two integers.'') \<longrightarrow>
    malformed_bins bins \<and> bins \<noteq> BinsArray0d) \<and>
   (''xpos'' \<in> set (columns data) \<and> ''ypos'' \<in> set (columns data) \<and>
    malformed_bins bins \<and> bins \<noteq> BinsArray0d \<longrightarrow>
    plot_heatmap aoi_valid allocate data sd aoi bins =
      Inl (ValueError ''`bins` must be an integer or a tuple of two integers.'')) \<and>
   (''xpos'' \<in> set (columns data) \<and> ''ypos'' \<in> set (columns data) \<longrightarrow>
    plot_heatmap aoi_valid allocate data sd aoi BinsArray0d = Inl TypeError) \<and>
   (\<not> (''xpos'' \<in> set (columns data) \<and> ''ypos'' \<in> set (columns data)) \<longrightarrow>
    plot_heatmap aoi_valid allocate data sd aoi bins = Inl KeyError) \<and>
   (true_div (snd sd) 20 = Inr qx \<and> true_div (fst sd) 20 = Inr qy \<longrightarrow>
    determine_bins sd BinsNone = Inr (py_int qx, py_int qy)) \<and>
   determine_bins sd (BinsInt n) = Inr (n, n) \<and>
   determine_bins sd (BinsSeq [bx, by]) = Inr (bx, by) \<and>
   (\<forall>fig. plot_heatmap aoi_valid allocate data sd aoi bins = Inr fig \<longrightarrow>
      determine_bins sd bins = Inr (bin_counts (heatmap fig)))"
proof -
  let ?E = "ValueError ''`bins` must be an integer or a tuple of two integers.''"
  let ?cols = "''xpos'' \<in> set (columns data) \<and> ''ypos'' \<in> set (columns data)"
  have only_if: "plot_heatmap aoi_valid allocate data sd aoi bins = Inl ?E \<longrightarrow>
      malformed_bins bins \<and> bins \<noteq> BinsArray0d"
  proof
    assume r: "plot_heatmap aoi_valid allocate data sd aoi bins = Inl ?E"
    then have ?cols
      using plot_heatmap_no_columns[of data aoi_valid allocate sd aoi bins] by auto
    then obtain d where d: "heatmap_data data sd = Inr d"
      using heatmap_data_defined by blast
    show "malformed_bins bins \<and> bins \<noteq> BinsArray0d"
    proof (cases "determine_bins sd bins")
      case (Inl e)
      then have "e = ?E" using r unfolding plot_heatmap_eq[OF d] by (simp add: bind_err_def)
      then show ?thesis using Inl by (simp add: determine_bins_rejects)
    next
      case (Inr b)
      then show ?thesis
        using r unfolding plot_heatmap_eq[OF d]
        by (cases aoi) (auto simp: bind_err_def split: prod.splits if_splits sum.splits
            dest: overlay_aoi_error allocated_error)
    qed
  qed
  have "if": "?cols \<and> malformed_bins bins \<and> bins \<noteq> BinsArray0d \<longrightarrow>
    plot_heatmap aoi_valid allocate data sd aoi bins = Inl ?E"
  proof (intro impI, elim conjE)
    assume c: "''xpos'' \<in> set (columns data)" "''ypos'' \<in> set (columns data)"
      and m: "malformed_bins bins" "bins \<noteq> BinsArray0d"
    obtain d where d: "heatmap_data data sd = Inr d"
      using heatmap_data_defined c by blast
    have "determine_bins sd bins = Inl ?E"
      using m by (simp add: determine_bins_rejects)
    then show "plot_heatmap aoi_valid allocate data sd aoi bins = Inl ?E"
      unfolding plot_heatmap_eq[OF d] by (simp add: bind_err_def)
  qed
  have array0d: "?cols \<longrightarrow> plot_heatmap aoi_valid allocate data sd aoi BinsArray0d = Inl TypeError"
  proof (intro impI, elim conjE)
    assume c: "''xpos'' \<in> set (columns data)" "''ypos'' \<in> set (columns data)"
    obtain d where d: "heatmap_data data sd = Inr d"
      using heatmap_data_defined c by blast
    show "plot_heatmap aoi_valid allocate data sd aoi BinsArray0d = Inl TypeError"
      unfolding plot_heatmap_eq[OF d] by (simp add: bind_err_def determine_bins_def)
  qed
  have no_cols: "\<not> ?cols \<longrightarrow> plot_heatmap aoi_valid allocate data sd aoi bins = Inl KeyError"
    using plot_heatmap_no_columns by blast
  have counts: "\<forall>fig. plot_heatmap aoi_valid allocate data sd aoi bins = Inr fig \<longrightarrow>
      determine_bins sd bins = Inr (bin_counts (heatmap fig))"
  proof (intro allI impI)
    fix fig assume r: "plot_heatmap aoi_valid allocate data sd aoi bins = Inr fig"
    then have ?cols
      using plot_heatmap_no_columns[of data aoi_valid allocate sd aoi bins] by auto
    then obtain d where d: "heatmap_data data sd = Inr d"
      using heatmap_data_defined by blast
    show "determine_bins sd bins = Inr (bin_counts (heatmap fig))"
      using r unfolding plot_heatmap_eq[OF d]
      by (auto simp: bind_err_def split: prod.splits if_splits sum.splits)
  qed
  have default: "true_div (snd sd) 20 = Inr qx \<and> true_div (fst sd) 20 = Inr qy \<longrightarrow>
    determine_bins sd BinsNone = Inr (py_int qx, py_int qy)"
    by (simp add: determine_bins_def bind_err_def)
  have given: "determine_bins sd (BinsInt n) = Inr (n, n)"
    "determine_bins sd (BinsSeq [bx, by]) = Inr (bx, by)"
    by (simp_all add: determine_bins_def)
  from only_if "if" array0d no_cols default given counts show ?thesis by blast
qed

text \<open>
  The theorem at a sequence of three counts and at a value of another type (both
  rejected with the ValueError), at a sequence of two counts (accepted), and at the
  default bins of a screen of 100 by 200.
\<close>

theorem bins_argument_witness:
  "malformed_bins (BinsSeq [4, 5, 6]) \<and>
   plot_heatmap (\<lambda>a s. True) (\<lambda>shape. Allocated)
     \<lparr>columns = [''xpos'', ''ypos''], rows = [(0, [Num 5, Num 5])]\<rparr> (100, 200) None (BinsSeq [4, 5, 6]) =
     Inl (ValueError ''`bins` must be an integer or a tuple of two integers.'') \<and>
   plot_heatmap (\<lambda>a s. True) (\<lambda>shape. Allocated)
     \<lparr>columns = [''xpos'', ''ypos''], rows = [(0, [Num 5, Num 5])]\<rparr> (100, 200) None BinsOther =
     Inl (ValueError ''`bins` must be an integer or a tuple of two integers.'') \<and>
   plot_heatmap (\<lambda>a s. True) (\<lambda>shape. Allocated)
     \<lparr>columns = [''xpos'', ''ypos''], rows = [(0, [Num 5, Num 5])]\<rparr> (100, 200) None (BinsSeq [4, 5]) =
     Inr \<lparr>heatmap = \<lparr>sample_x = [Num 5], sample_y = [Num 5], bin_counts = (4, 5)\<rparr>,
          extent = [0, 200, 100, 0], overlays = []\<rparr> \<and>
   plot_heatmap (\<lambda>a s. True) (\<lambda>shape. Allocated)
     \<lparr>columns = [''axp'', ''ayp''], rows = [(0, [Num 5, Num 5])]\<rparr> (100, 200) None BinsOther =
     Inl KeyError \<and>
   determine_bins (100, 200) (BinsSeq [4, 5]) = Inr (4, 5) \<and>
   determine_bins (100, 200) (BinsInt 7) = Inr (7, 7) \<and>
   determine_bins (100, 200) BinsNone = Inr (10, 5)"
proof -
  let ?D = "\<lparr>columns = [''xpos'', ''ypos''], rows = [(0, [Num 5, Num (5::real)])]\<rparr>"
  let ?A = "\<lparr>columns = [''axp'', ''ayp''], rows = [(0, [Num 5, Num (5::real)])]\<rparr>"
  have ok: "plot_heatmap (\<lambda>a s. True) (\<lambda>shape. Allocated) ?D (100, 200) None (BinsSeq [4, 5]) =
     Inr \<lparr>heatmap = \<lparr>sample_x = [Num 5], sample_y = [Num 5], bin_counts = (4, 5)\<rparr>,
          extent = [0, 200, 100, 0], overlays = []\<rparr>"
    by (simp add: plot_heatmap_def heatmap_data_eq bind_err_def determine_bins_def get_column_def
        np_histogram2d_def on_screen_def cell_at_def)
  have f: "round_to_float 10 = 10" "round_to_float 5 = 5"
    using round_to_float_of_int[of 10] round_to_float_of_int[of 5] by simp_all
  have q: "true_div 200 20 = Inr 10" "true_div 100 20 = Inr 5"
    by (simp_all add: true_div_def f)
  have i: "py_int 10 = 10" "py_int 5 = 5"
    by (simp_all add: py_int_def)
  show ?thesis
    using bins_argument[of "\<lambda>a s. True" "\<lambda>shape. Allocated" ?D "(100, 200)" None "BinsSeq [4, 5, 6]" 10 5 7 4 5]
      bins_argument[of "\<lambda>a s. True" "\<lambda>shape. Allocated" ?D "(100, 200)" None "BinsOther" 10 5 7 4 5]
      bins_argument[of "\<lambda>a s. True" "\<lambda>shape. Allocated" ?A "(100, 200)" None "BinsOther" 10 5 7 4 5]
      ok q i
    by simp
qed

text \<open>
  Claim C5 as stated fails: an array of dimension 0 is not None, not an integer
  and not a sequence of length 2, and the call raises TypeError, not ValueError.
\<close>

theorem bins_array0d_type_error:
  "malformed_bins BinsArray0d \<and>
   plot_heatmap (\<lambda>a s. True) (\<lambda>shape. Allocated)
     \<lparr>columns = [''xpos'', ''ypos''], rows = [(0, [Num 5, Num 5])]\<rparr> (100, 200) None BinsArray0d =
     Inl TypeError"
  by (simp add: plot_heatmap_def heatmap_data_eq bind_err_def determine_bins_def)

subsection \<open>Default bins of the heatmap\<close>

text \<open>
  Claim C10, amended. When \<^verbatim>\<open>bins\<close> is None, \<^verbatim>\<open>plot_heatmap\<close> uses
  \<^verbatim>\<open>int(screen_width / 20)\<close> bins in x and \<^verbatim>\<open>int(screen_height / 20)\<close> bins in y, float
  quotients truncated towards zero; for screen dimensions from 0 to below
  \<open>20 * 2 ^ 48\<close> these are exactly floor(screen_width / 20) and
  floor(screen_height / 20). Whatever the dimensions, a call with default bins
  that returns a figure has both dimensions at least 20. A dimension from 0 to 19
  gives a zero count, on which \<^verbatim>\<open>numpy.histogram2d\<close> raises ValueError; with both
  dimensions at least 20, data that hold \<^verbatim>\<open>xpos\<close> and \<^verbatim>\<open>ypos\<close> and arrays numpy can
  build, the call without AOIs returns a figure.
\<close>

theorem default_bins_from_screen:
  "(0 \<le> w \<and> w div 20 < 2 ^ 48 \<and> 0 \<le> h \<and> h div 20 < 2 ^ 48 \<longrightarrow>
      determine_bins (h, w) BinsNone =
        Inr (\<lfloor>real_of_int w / 20\<rfloor>, \<lfloor>real_of_int h / 20\<rfloor>)) \<and>
   (\<forall>fig. plot_heatmap aoi_valid allocate data (h, w) aoi BinsNone = Inr fig \<longrightarrow>
      20 \<le> w \<and> 20 \<le> h \<and>
      (w div 20 < 2 ^ 48 \<and> h div 20 < 2 ^ 48 \<longrightarrow>
       bin_counts (heatmap fig) = (\<lfloor>real_of_int w / 20\<rfloor>, \<lfloor>real_of_int h / 20\<rfloor>))) \<and>
   (0 \<le> w \<and> w < 20 \<longrightarrow> \<lfloor>real_of_int w / 20\<rfloor> = 0) \<and>
   (0 \<le> h \<and> h < 20 \<longrightarrow> \<lfloor>real_of_int h / 20\<rfloor> = 0) \<and>
   (''xpos'' \<in> set (columns data) \<and> ''ypos'' \<in> set (columns data) \<and>
    0 \<le> w \<and> w < 20 \<and> 0 \<le> h \<and> h div 20 < 2 ^ 48 \<longrightarrow>
      plot_heatmap aoi_valid allocate data (h, w) aoi BinsNone =
        Inl (ValueError ''`bins[0]` must be positive, when an integer'')) \<and>
   (''xpos'' \<in> set (columns data) \<and> ''ypos'' \<in> set (columns data) \<and>
    20 \<le> w \<and> w div 20 < 2 ^ 48 \<and> 0 \<le> h \<and> h < 20 \<and> allocate [w div 20] = Allocated \<longrightarrow>
      plot_heatmap aoi_valid allocate data (h, w) aoi BinsNone =
        Inl (ValueError ''`bins[1]` must be positive, when an integer'')) \<and>
   (''xpos'' \<in> set (columns data) \<and> ''ypos'' \<in> set (columns data) \<and>
    20 \<le> w \<and> w div 20 < 2 ^ 48 \<and> 20 \<le> h \<and> h div 20 < 2 ^ 48 \<and>
    allocate [w div 20] = Allocated \<and> allocate [h div 20] = Allocated \<and>
    allocate [w div 20, h div 20] = Allocated \<longrightarrow>
      (\<exists>fig. plot_heatmap aoi_valid allocate data (h, w) None BinsNone = Inr fig))"
proof -
  let ?cols = "''xpos'' \<in> set (columns data) \<and> ''ypos'' \<in> set (columns data)"
  have fl: "\<lfloor>real_of_int k / 20\<rfloor> = k div 20" for k :: int
    using floor_divide_of_int_eq[of k 20] by simp
  have bins: "determine_bins (h, w) BinsNone = Inr (w div 20, h div 20)"
    if "0 \<le> w" "w div 20 < 2 ^ 48" "0 \<le> h" "h div 20 < 2 ^ 48"
    using determine_bins_default[of "(h, w)"] that by simp
  have c1: "0 \<le> w \<and> w div 20 < 2 ^ 48 \<and> 0 \<le> h \<and> h div 20 < 2 ^ 48 \<longrightarrow>
      determine_bins (h, w) BinsNone =
        Inr (\<lfloor>real_of_int w / 20\<rfloor>, \<lfloor>real_of_int h / 20\<rfloor>)"
    using bins by (simp add: fl)
  have c2: "\<forall>fig. plot_heatmap aoi_valid allocate data (h, w) aoi BinsNone = Inr fig \<longrightarrow>
      20 \<le> w \<and> 20 \<le> h \<and>
      (w div 20 < 2 ^ 48 \<and> h div 20 < 2 ^ 48 \<longrightarrow>
       bin_counts (heatmap fig) = (\<lfloor>real_of_int w / 20\<rfloor>, \<lfloor>real_of_int h / 20\<rfloor>))"
  proof (intro allI impI)
    fix fig assume r: "plot_heatmap aoi_valid allocate data (h, w) aoi BinsNone = Inr fig"
    then have ?cols
      using plot_heatmap_no_columns[of data aoi_valid allocate "(h, w)" aoi BinsNone] by auto
    then obtain d where d: "heatmap_data data (h, w) = Inr d"
      using heatmap_data_defined by blast
    obtain bx "by" where b: "determine_bins (h, w) BinsNone = Inr (bx, by)"
      using r unfolding plot_heatmap_eq[OF d]
      by (cases "determine_bins (h, w) BinsNone") (auto simp: bind_err_def)
    have pos: "1 \<le> bx" "1 \<le> by" and cnt: "bin_counts (heatmap fig) = (bx, by)"
      using r unfolding plot_heatmap_eq[OF d] b
      by (auto simp: bind_err_def split: if_splits sum.splits)
    have ge: "20 \<le> w" "20 \<le> h"
      using determine_bins_default_ge1[OF b] pos by simp_all
    have "bin_counts (heatmap fig) = (\<lfloor>real_of_int w / 20\<rfloor>, \<lfloor>real_of_int h / 20\<rfloor>)"
      if "w div 20 < 2 ^ 48" "h div 20 < 2 ^ 48"
      using bins[OF _ that(1) _ that(2)] ge b cnt by (simp add: fl)
    with ge show "20 \<le> w \<and> 20 \<le> h \<and>
      (w div 20 < 2 ^ 48 \<and> h div 20 < 2 ^ 48 \<longrightarrow>
       bin_counts (heatmap fig) = (\<lfloor>real_of_int w / 20\<rfloor>, \<lfloor>real_of_int h / 20\<rfloor>))"
      by blast
  qed
  have c3: "0 \<le> w \<and> w < 20 \<longrightarrow> \<lfloor>real_of_int w / 20\<rfloor> = 0"
    "0 \<le> h \<and> h < 20 \<longrightarrow> \<lfloor>real_of_int h / 20\<rfloor> = 0"
    by (simp_all add: fl)
  have small: "k div 20 < 2 ^ 48" if "k < 20" for k :: int
  proof -
    have "k div 20 \<le> 0" using that by simp
    then show ?thesis by (rule le_less_trans) simp
  qed
  have c4: "?cols \<and> 0 \<le> w \<and> w < 20 \<and> 0 \<le> h \<and> h div 20 < 2 ^ 48 \<longrightarrow>
      plot_heatmap aoi_valid allocate data (h, w) aoi BinsNone =
        Inl (ValueError ''`bins[0]` must be positive, when an integer'')"
  proof (intro impI, elim conjE)
    assume c: "''xpos'' \<in> set (columns data)" "''ypos'' \<in> set (columns data)"
      and s: "0 \<le> w" "w < 20" "0 \<le> h" "h div 20 < 2 ^ 48"
    obtain d where d: "heatmap_data data (h, w) = Inr d"
      using heatmap_data_defined c by blast
    have "w div 20 < 1" using s by simp
    then show "plot_heatmap aoi_valid allocate data (h, w) aoi BinsNone =
        Inl (ValueError ''`bins[0]` must be positive, when an integer'')"
      unfolding plot_heatmap_eq[OF d] bins[OF s(1) small[OF s(2)] s(3) s(4)]
      by (simp add: bind_err_def)
  qed
  have c5: "?cols \<and> 20 \<le> w \<and> w div 20 < 2 ^ 48 \<and> 0 \<le> h \<and> h < 20 \<and>
      allocate [w div 20] = Allocated \<longrightarrow>
      plot_heatmap aoi_valid allocate data (h, w) aoi BinsNone =
        Inl (ValueError ''`bins[1]` must be positive, when an integer'')"
  proof (intro impI, elim conjE)
    assume c: "''xpos'' \<in> set (columns data)" "''ypos'' \<in> set (columns data)"
      and s: "20 \<le> w" "w div 20 < 2 ^ 48" "0 \<le> h" "h < 20"
      and a: "allocate [w div 20] = Allocated"
    obtain d where d: "heatmap_data data (h, w) = Inr d"
      using heatmap_data_defined c by blast
    have w0: "0 \<le> w" using s by simp
    have "h div 20 < 1" "\<not> w div 20 < 1" using s by simp_all
    then show "plot_heatmap aoi_valid allocate data (h, w) aoi BinsNone =
        Inl (ValueError ''`bins[1]` must be positive, when an integer'')"
      unfolding plot_heatmap_eq[OF d] bins[OF w0 s(2) s(3) small[OF s(4)]]
      by (simp add: bind_err_def a)
  qed
  have c6: "?cols \<and> 20 \<le> w \<and> w div 20 < 2 ^ 48 \<and> 20 \<le> h \<and> h div 20 < 2 ^ 48 \<and>
    allocate [w div 20] = Allocated \<and> allocate [h div 20] = Allocated \<and>
    allocate [w div 20, h div 20] = Allocated \<longrightarrow>
      (\<exists>fig. plot_heatmap aoi_valid allocate data (h, w) None BinsNone = Inr fig)"
  proof (intro impI, elim conjE)
    assume c: "''xpos'' \<in> set (columns data)" "''ypos'' \<in> set (columns data)"
      and s: "20 \<le> w" "w div 20 < 2 ^ 48" "20 \<le> h" "h div 20 < 2 ^ 48"
      and a: "allocate [w div 20] = Allocated" "allocate [h div 20] = Allocated"
        "allocate [w div 20, h div 20] = Allocated"
    obtain d where d: "heatmap_data data (h, w) = Inr d"
      using heatmap_data_defined c by blast
    have w0: "0 \<le> w" "0 \<le> h" using s by simp_all
    have "\<not> h div 20 < 1" "\<not> w div 20 < 1" using s by simp_all
    then show "\<exists>fig. plot_heatmap aoi_valid allocate data (h, w) None BinsNone = Inr fig"
      unfolding plot_heatmap_eq[OF d] bins[OF w0(1) s(2) w0(2) s(4)]
      by (simp add: bind_err_def a)
  qed
  from c1 c2 c3 c4 c5 c6 show ?thesis by blast
qed

text \<open>
  The theorem at a screen of height 10 (zero bins in y, the histogram fails) and at
  a screen of 1080 by 1920 (96 by 54 bins).
\<close>

theorem default_bins_from_screen_witness:
  "determine_bins (10, 100) BinsNone = Inr (5, 0) \<and>
   plot_heatmap (\<lambda>a s. True) (\<lambda>shape. Allocated)
     \<lparr>columns = [''xpos'', ''ypos''], rows = [(0, [Num 5, Num 5]), (1, [NaN, Num 7])]\<rparr>
     (10, 100) None BinsNone = Inl (ValueError ''`bins[1]` must be positive, when an integer'') \<and>
   (\<exists>fig. plot_heatmap (\<lambda>a s. True) (\<lambda>shape. Allocated)
     \<lparr>columns = [''xpos'', ''ypos''], rows = [(0, [Num 5, Num 5]), (1, [NaN, Num 7])]\<rparr>
     (1080, 1920) None BinsNone = Inr fig \<and> bin_counts (heatmap fig) = (96, 54))"
proof -
  let ?D = "\<lparr>columns = [''xpos'', ''ypos''], rows = [(0, [Num 5, Num 5]), (1, [NaN, Num (7::real)])]\<rparr>"
  have b: "(10::int) div 20 < 2 ^ 48" "(100::int) div 20 < 2 ^ 48"
    "(1080::int) div 20 < 2 ^ 48" "(1920::int) div 20 < 2 ^ 48"
    by simp_all
  have f: "\<lfloor>real_of_int 100 / 20\<rfloor> = (5::int)" "\<lfloor>real_of_int 10 / 20\<rfloor> = (0::int)"
    "\<lfloor>real_of_int 1920 / 20\<rfloor> = (96::int)" "\<lfloor>real_of_int 1080 / 20\<rfloor> = (54::int)"
    by simp_all
  show ?thesis
    using default_bins_from_screen[of 100 10 "\<lambda>a s. True" "\<lambda>shape. Allocated" ?D None]
      default_bins_from_screen[of 1920 1080 "\<lambda>a s. True" "\<lambda>shape. Allocated" ?D None] b f
    by auto
qed

text \<open>
  Claim C10 as stated fails for a negative dimension, which \<^verbatim>\<open>plot_heatmap\<close> does not
  reject, and for a very large one: for the width -30 it uses \<^verbatim>\<open>int(-1.5)\<close>, which is
  -1 and not the floor -2, and for the width 180143985094819860 the float quotient
  is rounded to 9007199254740992, one below the floor of the exact quotient.
\<close>

theorem default_bins_not_floor:
  "determine_bins (100, - 30) BinsNone = Inr (- 1, 5) \<and>
   \<lfloor>real_of_int (- 30) / 20\<rfloor> = (- 2 :: int) \<and>
   determine_bins (100, 180143985094819860) BinsNone = Inr (9007199254740992, 5) \<and>
   \<lfloor>real_of_int 180143985094819860 / 20\<rfloor> = (9007199254740993 :: int)"
proof -
  have f: "round_to_float (- (3 / 2)) = - (3 / 2)" "round_to_float 5 = 5"
    using round_to_float_dyadic[of "- 3" 1] round_to_float_of_int[of 5] by simp_all
  have q: "true_div (- 30) 20 = Inr (- (3 / 2))" "true_div 100 20 = Inr 5"
    "true_div 180143985094819860 20 = Inr 9007199254740992"
    using wide_screen_quotient by (simp_all add: true_div_def f)
  have i: "py_int (- (3 / 2)) = - 1" "py_int 5 = 5" "py_int 9007199254740992 = 9007199254740992"
    by (simp_all add: py_int_def)
  have "\<lfloor>real_of_int (- 30) / 20\<rfloor> = (- 2 :: int)"
    "\<lfloor>real_of_int 180143985094819860 / 20\<rfloor> = (9007199254740993 :: int)"
    by simp_all
  then show ?thesis
    by (simp add: determine_bins_def bind_err_def q i)
qed

subsection \<open>Rows with missing coordinates\<close>




end
